theory Spec2Isabelle
  imports Main "HOL-Library.AList"
begin

section \<open>Python string operations used by the two scripts\<close>

text \<open>\<open>s.rstrip("/")\<close>, \<open>s.lstrip("/")\<close> and \<open>s.strip("/")\<close>.\<close>

definition lstrip_barra :: "string \<Rightarrow> string" where
  "lstrip_barra s = dropWhile (\<lambda>c. c = CHR ''/'') s"

definition rstrip_barra :: "string \<Rightarrow> string" where
  "rstrip_barra s = rev (dropWhile (\<lambda>c. c = CHR ''/'') (rev s))"

definition strip_barra :: "string \<Rightarrow> string" where
  "strip_barra s = lstrip_barra (rstrip_barra s)"

text \<open>\<open>s.replace(old, new)\<close>: left to right, occurrences do not overlap. The first
  function is the scan for a non-empty \<open>old\<close>; for an empty \<open>old\<close> Python puts \<open>new\<close>
  before every character and at the end.\<close>

fun replace_scan :: "string \<Rightarrow> string \<Rightarrow> string \<Rightarrow> string" where
  "replace_scan old new [] = []"
| "replace_scan old new (c # cs) =
     (if take (length old) (c # cs) = old
      then new @ replace_scan old new (drop (length old - 1) cs)
      else c # replace_scan old new cs)"

definition py_replace :: "string \<Rightarrow> string \<Rightarrow> string \<Rightarrow> string" where
  "py_replace old new s =
     (if old = [] then new @ concat (map (\<lambda>c. c # new) s) else replace_scan old new s)"

text \<open>\<open>s.split("/")\<close>: an empty string gives one empty part.\<close>

fun split_barra :: "string \<Rightarrow> string list" where
  "split_barra [] = [] # []"
| "split_barra (c # cs) =
     (if c = CHR ''/'' then [] # split_barra cs
      else (case split_barra cs of
              [] \<Rightarrow> [c] # []
            | w # ws \<Rightarrow> (c # w) # ws))"

text \<open>\<open>s.split(sep, 1)[1]\<close> for a non-empty \<open>sep\<close>: the text after the first occurrence
  of \<open>sep\<close>; \<open>None\<close> exactly when \<open>sep in s\<close> is false (the index 1 does not exist).\<close>

fun depois_de :: "string \<Rightarrow> string \<Rightarrow> string option" where
  "depois_de sep [] = None"
| "depois_de sep (c # cs) =
     (if take (length sep) (c # cs) = sep then Some (drop (length sep) (c # cs))
      else depois_de sep cs)"

text \<open>\<open>os.path.dirname(p)\<close> of posixpath: the text up to the last slash, with the
  trailing slashes of that head removed unless the head is made of slashes only.\<close>

definition dirname :: "string \<Rightarrow> string" where
  "dirname p =
     (let head = rev (dropWhile (\<lambda>c. c \<noteq> CHR ''/'') (rev p))
      in if head \<noteq> [] \<and> \<not> list_all (\<lambda>c. c = CHR ''/'') head then rstrip_barra head else head)"

text \<open>\<open>f"{remote_dir.rstrip('/')}/{nome}".replace("//", "/")\<close>, the path of an entry
  of a directory, and of a relative path under a root.\<close>

definition juntar :: "string \<Rightarrow> string \<Rightarrow> string" where
  "juntar remote_dir nome = py_replace ''//'' ''/'' (rstrip_barra remote_dir @ ''/'' @ nome)"

section \<open>Dictionaries in insertion order\<close>

text \<open>A Python \<open>dict\<close> keeps its keys in insertion order, and the loops of the scripts
  iterate in that order: it is an association list with distinct keys. \<open>d[k] = v\<close> keeps
  the place of a key that is already there and appends a new one.\<close>

type_synonym 'v dict = "(string \<times> 'v) list"

definition dict_get :: "'v dict \<Rightarrow> string \<Rightarrow> 'v option" where
  "dict_get d k = map_of d k"

definition dict_set :: "string \<Rightarrow> 'v \<Rightarrow> 'v dict \<Rightarrow> 'v dict" where
  "dict_set k v d = AList.update k v d"

text \<open>\<open>d.update(other)\<close>, and \<open>{**a, **b}\<close> as the update of a copy of \<open>a\<close>.\<close>

definition dict_update :: "'v dict \<Rightarrow> 'v dict \<Rightarrow> 'v dict" where
  "dict_update d other = fold (\<lambda>(k, v) acc. dict_set k v acc) other d"

section \<open>The remote tree and the recursive listing\<close>

text \<open>The value stored for a file: \<open>{"tamanho": entry.st_size, "data": data_mod}\<close>.
  A date is its day number, as \<open>date.toordinal()\<close> counts it.\<close>

record arquivo_info =
  tamanho :: int
  data :: int

text \<open>An entry returned by \<open>sftp.listdir_attr\<close>: its \<open>filename\<close>, whether \<open>longname\<close>
  starts with \<open>d\<close>, its \<open>st_size\<close>, the date of \<open>datetime.fromtimestamp(st_mtime)\<close>
  (\<open>None\<close> when the server sent no \<open>st_mtime\<close>, where the conversion raises), and for a
  directory what \<open>listdir_attr\<close> answers for it: \<open>None\<close> when the call raises.\<close>

datatype rnode =
  RNode (filename: string) (is_dir: bool) (st_size: int) (data_mod: "int option")
        (conteudo: "rnode list option")

text \<open>\<open>listar_arquivos_sftp_recursivo\<close> of SFTP\_Cliente1.py. The whole body is
  inside \<open>try\<close>: a failing \<open>listdir_attr\<close> returns the empty dict, and an exception in
  the loop returns what the loop has collected so far.\<close>

fun listar_arquivos_sftp_recursivo1 ::
      "int option \<Rightarrow> string \<Rightarrow> rnode list option \<Rightarrow> arquivo_info dict"
  and laco_listar1 ::
      "int option \<Rightarrow> string \<Rightarrow> rnode list \<Rightarrow> arquivo_info dict \<Rightarrow> arquivo_info dict"
where
  "listar_arquivos_sftp_recursivo1 filtro_data remote_dir None = []"
| "listar_arquivos_sftp_recursivo1 filtro_data remote_dir (Some entries) =
     laco_listar1 filtro_data remote_dir entries []"
| "laco_listar1 filtro_data remote_dir [] arquivos = arquivos"
| "laco_listar1 filtro_data remote_dir (RNode nome isd sz dm cont # es) arquivos =
     (case dm of
        None \<Rightarrow> arquivos
      | Some d \<Rightarrow>
          if isd then
            laco_listar1 filtro_data remote_dir es
              (dict_update arquivos
                 (listar_arquivos_sftp_recursivo1 filtro_data (juntar remote_dir nome) cont))
          else if filtro_data = None \<or> Some d = filtro_data then
            laco_listar1 filtro_data remote_dir es
              (dict_set (juntar remote_dir nome) \<lparr>tamanho = sz, data = d\<rparr> arquivos)
          else laco_listar1 filtro_data remote_dir es arquivos)"

text \<open>\<open>listar_arquivos_sftp_recursivo\<close> of SFTP\_Cliente2.py, with the recursion level
  and the lower bound on the date. Beside the dict it returns what the walk did on the
  server and in the log, in order: each \<open>listdir_attr\<close> call, each directory skipped with
  the message "Pulando pasta antiga", each error logged by the \<open>except\<close> branch.\<close>

datatype walk_event = ListDir string | PulandoPasta string | ErroListar string

fun listar_arquivos_sftp_recursivo2 ::
      "int option \<Rightarrow> nat \<Rightarrow> string \<Rightarrow> rnode list option
         \<Rightarrow> arquivo_info dict \<times> walk_event list"
  and laco_listar2 ::
      "int option \<Rightarrow> nat \<Rightarrow> string \<Rightarrow> rnode list
         \<Rightarrow> arquivo_info dict \<times> walk_event list \<Rightarrow> arquivo_info dict \<times> walk_event list"
where
  "listar_arquivos_sftp_recursivo2 filtro_data_min nivel remote_dir None =
     ([], [ListDir remote_dir, ErroListar remote_dir])"
| "listar_arquivos_sftp_recursivo2 filtro_data_min nivel remote_dir (Some entries) =
     laco_listar2 filtro_data_min nivel remote_dir entries ([], [ListDir remote_dir])"
| "laco_listar2 filtro_data_min nivel remote_dir [] st = st"
| "laco_listar2 filtro_data_min nivel remote_dir (RNode nome isd sz dm cont # es) st =
     (case dm of
        None \<Rightarrow> (fst st, snd st @ [ErroListar remote_dir])
      | Some d \<Rightarrow>
          if isd then
            if nivel = 0 \<and> (case filtro_data_min of None \<Rightarrow> False | Some m \<Rightarrow> d < m) then
              laco_listar2 filtro_data_min nivel remote_dir es
                (fst st, snd st @ [PulandoPasta (juntar remote_dir nome)])
            else
              laco_listar2 filtro_data_min nivel remote_dir es
                (dict_update (fst st)
                   (fst (listar_arquivos_sftp_recursivo2 filtro_data_min (nivel + 1)
                           (juntar remote_dir nome) cont)),
                 snd st @
                   snd (listar_arquivos_sftp_recursivo2 filtro_data_min (nivel + 1)
                          (juntar remote_dir nome) cont))
          else if (case filtro_data_min of None \<Rightarrow> True | Some m \<Rightarrow> d \<ge> m) then
            laco_listar2 filtro_data_min nivel remote_dir es
              (dict_set (juntar remote_dir nome) \<lparr>tamanho = sz, data = d\<rparr> (fst st), snd st)
          else laco_listar2 filtro_data_min nivel remote_dir es st)"

text \<open>One iteration of each of the two loops, for the proofs: \<open>None\<close> when the
  iteration raises, otherwise the state after it (lemmas \<open>laco1_Cons\<close> and
  \<open>laco2_Cons\<close> below).\<close>

definition passo_listar1 ::
    "int option \<Rightarrow> string \<Rightarrow> rnode \<Rightarrow> arquivo_info dict \<Rightarrow> arquivo_info dict option" where
  "passo_listar1 f dir x arquivos =
     (case data_mod x of
        None \<Rightarrow> None
      | Some d \<Rightarrow>
          Some (if is_dir x then
                  dict_update arquivos
                    (listar_arquivos_sftp_recursivo1 f (juntar dir (filename x)) (conteudo x))
                else if f = None \<or> Some d = f then
                  dict_set (juntar dir (filename x)) \<lparr>tamanho = st_size x, data = d\<rparr> arquivos
                else arquivos))"

definition passo_listar2 ::
    "int option \<Rightarrow> nat \<Rightarrow> string \<Rightarrow> rnode \<Rightarrow> arquivo_info dict \<times> walk_event list
       \<Rightarrow> (arquivo_info dict \<times> walk_event list) option" where
  "passo_listar2 f n dir x st =
     (case data_mod x of
        None \<Rightarrow> None
      | Some d \<Rightarrow>
          Some (if is_dir x then
                  if n = 0 \<and> (case f of None \<Rightarrow> False | Some m \<Rightarrow> d < m) then
                    (fst st, snd st @ [PulandoPasta (juntar dir (filename x))])
                  else
                    (dict_update (fst st)
                       (fst (listar_arquivos_sftp_recursivo2 f (n + 1)
                               (juntar dir (filename x)) (conteudo x))),
                     snd st @
                       snd (listar_arquivos_sftp_recursivo2 f (n + 1)
                              (juntar dir (filename x)) (conteudo x)))
                else if (case f of None \<Rightarrow> True | Some m \<Rightarrow> d \<ge> m) then
                  (dict_set (juntar dir (filename x)) \<lparr>tamanho = st_size x, data = d\<rparr> (fst st),
                   snd st)
                else st))"

section \<open>Configuration, environment and calls to the outside\<close>

text \<open>The fields of \<open>cliente1JobConfig\<close> and \<open>Cliente2JobConfig\<close> that the runs read:
  \<open>cfg.origem.remote_dir\<close>, \<open>cfg.destino.remote_dir\<close> (Cliente2), the uploads and
  processados directories (Cliente1), the log directory and file name, \<open>days_back\<close> and
  \<open>keep_extra_local_copy\<close> (Cliente2).\<close>

record job_config =
  origem_remote_dir :: string
  destino_remote_dir :: string
  destino_uploads_dir :: string
  destino_processados_dir :: string
  destino_log_dir :: string
  log_filename :: string
  days_back :: int
  keep_extra_local_copy :: bool

text \<open>\<open>StatusContador\<close>.\<close>

record status_contador =
  novos :: int
  iguais :: int
  reenviados :: int
  erros_download :: int
  erros_upload :: int
  erros_remocao :: int

definition status_inicial :: status_contador where
  "status_inicial =
     \<lparr>novos = 0, iguais = 0, reenviados = 0,
      erros_download = 0, erros_upload = 0, erros_remocao = 0\<rparr>"

text \<open>The calls a run makes on the two servers and on the local disk, after the
  listings. \<open>TempPath rel\<close> is \<open>cfg.temp_dir / rel\<close>, \<open>CopyPath rel\<close> is
  \<open>cfg.base_dir / rel\<close>, \<open>LogPath\<close> is \<open>cfg.log_path\<close>;
  \<open>LocalMkdirParent p\<close> is \<open>p.parent.mkdir(parents=True, exist_ok=True)\<close>.\<close>

datatype endpoint = Destino | Origem

datatype local_path = TempPath string | CopyPath string | LogPath

datatype call =
    Connect endpoint
  | Exists string
  | Remove string
  | Mkdir string
  | Chdir string
  | Put local_path string
  | Get string local_path
  | LocalMkdirParent local_path

text \<open>A call raises or returns; the boolean is the answer of \<open>exists\<close>.\<close>

datatype outcome = Raised | Returned bool

text \<open>What a run depends on and does not compute: today's date, \<open>os.path.relpath\<close>
  (posixpath or ntpath, by platform), what each server answers to the listings, and the
  outcome of every other call, which may depend on all the calls made before it.\<close>

record ambiente =
  hoje :: int
  relpath :: "string \<Rightarrow> string \<Rightarrow> string"
  resposta :: "call list \<Rightarrow> call \<Rightarrow> outcome"
  lista_uploads :: "rnode list option"
  lista_processados :: "rnode list option"
  lista_destino :: "rnode list option"
  lista_origem :: "rnode list option"

text \<open>Making a call: its outcome, and the call appended to the history.\<close>

definition chamar :: "ambiente \<Rightarrow> call \<Rightarrow> call list \<Rightarrow> outcome \<times> call list" where
  "chamar env c tr = (resposta env tr c, tr @ [c])"

definition barra_invertida :: string where
  "barra_invertida = [CHR 0x5C]"

section \<open>The steps of one entry\<close>

text \<open>\<open>ensure_remote_dirs\<close> (the same in both scripts): the loop over the parts, then
  the function. The boolean is False when a call raised.\<close>

fun criar_partes :: "ambiente \<Rightarrow> string \<Rightarrow> string list \<Rightarrow> call list \<Rightarrow> bool \<times> call list" where
  "criar_partes env path [] tr = (True, tr)"
| "criar_partes env path (part # parts) tr =
     (case chamar env (Exists (path @ ''/'' @ part)) tr of
        (Raised, tr1) \<Rightarrow> (False, tr1)
      | (Returned True, tr1) \<Rightarrow> criar_partes env (path @ ''/'' @ part) parts tr1
      | (Returned False, tr1) \<Rightarrow>
          (case chamar env (Mkdir (path @ ''/'' @ part)) tr1 of
             (Raised, tr2) \<Rightarrow> (False, tr2)
           | (Returned _, tr2) \<Rightarrow> criar_partes env (path @ ''/'' @ part) parts tr2))"

definition ensure_remote_dirs :: "ambiente \<Rightarrow> string \<Rightarrow> call list \<Rightarrow> bool \<times> call list" where
  "ensure_remote_dirs env remote_dir tr =
     (case chamar env (Exists (py_replace ''//'' ''/'' remote_dir)) tr of
        (Raised, tr1) \<Rightarrow> (False, tr1)
      | (Returned True, tr1) \<Rightarrow> (True, tr1)
      | (Returned False, tr1) \<Rightarrow>
          criar_partes env [] (split_barra (strip_barra (py_replace ''//'' ''/'' remote_dir))) tr1)"

text \<open>The decision taken by the nested \<open>if\<close> of the loop body (Cliente1 lines 299-322,
  Cliente2 lines 311-336): the key is in the destination dict with the same
  \<open>tamanho\<close>, with another one, or is not there.\<close>

datatype decisao = Skip | Create | Replace

definition decidir :: "arquivo_info dict \<Rightarrow> string \<Rightarrow> arquivo_info \<Rightarrow> decisao" where
  "decidir destino chave dados =
     (case dict_get destino chave of
        Some d \<Rightarrow> if tamanho d = tamanho dados then Skip else Replace
      | None \<Rightarrow> Create)"

text \<open>The removal of the old file, the whole \<open>try\<close> block: a new session, \<open>exists\<close>,
  and \<open>remove\<close> when it exists. False when one of them raised.\<close>

definition remover :: "ambiente \<Rightarrow> string \<Rightarrow> call list \<Rightarrow> bool \<times> call list" where
  "remover env destino_path tr =
     (case chamar env (Connect Destino) tr of
        (Raised, tr1) \<Rightarrow> (False, tr1)
      | (Returned _, tr1) \<Rightarrow>
          (case chamar env (Exists destino_path) tr1 of
             (Raised, tr2) \<Rightarrow> (False, tr2)
           | (Returned False, tr2) \<Rightarrow> (True, tr2)
           | (Returned True, tr2) \<Rightarrow>
               (case chamar env (Remove destino_path) tr2 of
                  (Raised, tr3) \<Rightarrow> (False, tr3)
                | (Returned _, tr3) \<Rightarrow> (True, tr3))))"

text \<open>The download block of Cliente1, and of Cliente2 with its optional second copy.\<close>

definition baixar1 :: "ambiente \<Rightarrow> string \<Rightarrow> string \<Rightarrow> call list \<Rightarrow> bool \<times> call list" where
  "baixar1 env caminho_remoto rel_path tr =
     (case chamar env (LocalMkdirParent (TempPath rel_path)) tr of
        (Raised, tr1) \<Rightarrow> (False, tr1)
      | (Returned _, tr1) \<Rightarrow>
          (case chamar env (Get caminho_remoto (TempPath rel_path)) tr1 of
             (Raised, tr2) \<Rightarrow> (False, tr2)
           | (Returned _, tr2) \<Rightarrow> (True, tr2)))"

definition baixar2 ::
    "job_config \<Rightarrow> ambiente \<Rightarrow> string \<Rightarrow> string \<Rightarrow> call list \<Rightarrow> bool \<times> call list" where
  "baixar2 cfg env caminho rel_path tr =
     (case baixar1 env caminho rel_path tr of
        (False, tr2) \<Rightarrow> (False, tr2)
      | (True, tr2) \<Rightarrow>
          if keep_extra_local_copy cfg then
            (case chamar env (LocalMkdirParent (CopyPath rel_path)) tr2 of
               (Raised, tr3) \<Rightarrow> (False, tr3)
             | (Returned _, tr3) \<Rightarrow>
                 (case chamar env (Get caminho (CopyPath rel_path)) tr3 of
                    (Raised, tr4) \<Rightarrow> (False, tr4)
                  | (Returned _, tr4) \<Rightarrow> (True, tr4)))
          else (True, tr2))"

text \<open>The upload block: a new session, the directories of the destination path, the
  \<open>put\<close>.\<close>

definition enviar :: "ambiente \<Rightarrow> string \<Rightarrow> string \<Rightarrow> call list \<Rightarrow> bool \<times> call list" where
  "enviar env rel_path destino_path tr =
     (case chamar env (Connect Destino) tr of
        (Raised, tr1) \<Rightarrow> (False, tr1)
      | (Returned _, tr1) \<Rightarrow>
          (case ensure_remote_dirs env (dirname destino_path) tr1 of
             (False, tr2) \<Rightarrow> (False, tr2)
           | (True, tr2) \<Rightarrow>
               (case chamar env (Put (TempPath rel_path) destino_path) tr2 of
                  (Raised, tr3) \<Rightarrow> (False, tr3)
                | (Returned _, tr3) \<Rightarrow> (True, tr3))))"

text \<open>The upload of the log at the end of \<open>main\<close>; its failure is only logged.\<close>

definition enviar_log :: "job_config \<Rightarrow> ambiente \<Rightarrow> call list \<Rightarrow> call list" where
  "enviar_log cfg env tr =
     (case chamar env (Connect Destino) tr of
        (Raised, tr1) \<Rightarrow> tr1
      | (Returned _, tr1) \<Rightarrow>
          (case ensure_remote_dirs env (destino_log_dir cfg) tr1 of
             (False, tr2) \<Rightarrow> tr2
           | (True, tr2) \<Rightarrow>
               (case chamar env (Chdir (destino_log_dir cfg)) tr2 of
                  (Raised, tr3) \<Rightarrow> tr3
                | (Returned _, tr3) \<Rightarrow> snd (chamar env (Put LogPath (log_filename cfg)) tr3))))"

text \<open>Download, then upload, with the two error counters (the end of the loop body).
  The first argument is the download block of the script.\<close>

definition transferir ::
    "(call list \<Rightarrow> bool \<times> call list) \<Rightarrow> ambiente \<Rightarrow> string \<Rightarrow> string
       \<Rightarrow> status_contador \<times> call list \<Rightarrow> status_contador \<times> call list" where
  "transferir baixar env rel_path destino_path st =
     (case baixar (snd st) of
        (False, tr1) \<Rightarrow> ((fst st)\<lparr>erros_download := erros_download (fst st) + 1\<rparr>, tr1)
      | (True, tr1) \<Rightarrow>
          (case enviar env rel_path destino_path tr1 of
             (False, tr2) \<Rightarrow> ((fst st)\<lparr>erros_upload := erros_upload (fst st) + 1\<rparr>, tr2)
           | (True, tr2) \<Rightarrow> (fst st, tr2)))"

text \<open>The decision part of the loop body: the counters of the decision, and the removal
  for a different size. \<open>None\<close> is the \<open>continue\<close> of an equal file.\<close>

definition decidir_e_remover ::
    "ambiente \<Rightarrow> arquivo_info dict \<Rightarrow> string \<Rightarrow> string \<Rightarrow> arquivo_info
       \<Rightarrow> status_contador \<times> call list \<Rightarrow> (status_contador \<times> call list) \<times> bool" where
  "decidir_e_remover env destino chave destino_path dados st =
     (case decidir destino chave dados of
        Skip \<Rightarrow> (((fst st)\<lparr>iguais := iguais (fst st) + 1\<rparr>, snd st), False)
      | Replace \<Rightarrow>
          (case remover env destino_path (snd st) of
             (False, tr1) \<Rightarrow>
               (((fst st)\<lparr>erros_remocao := erros_remocao (fst st) + 1,
                          reenviados := reenviados (fst st) + 1\<rparr>, tr1), True)
           | (True, tr1) \<Rightarrow>
               (((fst st)\<lparr>reenviados := reenviados (fst st) + 1\<rparr>, tr1), True))
      | Create \<Rightarrow> (((fst st)\<lparr>novos := novos (fst st) + 1\<rparr>, snd st), True))"

text \<open>\<open>rel_path\<close> of a source path, in both scripts.\<close>

definition rel_path_origem :: "job_config \<Rightarrow> ambiente \<Rightarrow> string \<Rightarrow> string" where
  "rel_path_origem cfg env caminho =
     py_replace barra_invertida ''/'' (relpath env caminho (origem_remote_dir cfg))"

section \<open>SFTP\_Cliente1.py\<close>

text \<open>The relative path of a destination file (lines 275-280).\<close>

definition relativo_destino1 :: "job_config \<Rightarrow> string \<Rightarrow> string" where
  "relativo_destino1 cfg caminho =
     lstrip_barra (py_replace barra_invertida ''/''
       (case depois_de ''/uploads/'' caminho of
          Some rel \<Rightarrow> rel
        | None \<Rightarrow>
            py_replace (rstrip_barra (destino_processados_dir cfg) @ ''/'') []
              (py_replace (rstrip_barra (destino_uploads_dir cfg) @ ''/'') [] caminho)))"

text \<open>\<open>arquivos_dest_rel\<close> from the two listings (lines 273-281).\<close>

definition arquivos_dest_rel1 ::
    "job_config \<Rightarrow> arquivo_info dict \<Rightarrow> arquivo_info dict \<Rightarrow> arquivo_info dict" where
  "arquivos_dest_rel1 cfg arquivos_dest_uploads arquivos_dest_proc =
     fold (\<lambda>(caminho, dados) acc. dict_set (relativo_destino1 cfg caminho) dados acc)
       (dict_update arquivos_dest_uploads arquivos_dest_proc) []"

text \<open>The destination snapshot of a run (lines 270-281) and its source snapshot
  (line 292).\<close>

definition snapshot_uploads1 :: "job_config \<Rightarrow> ambiente \<Rightarrow> arquivo_info dict" where
  "snapshot_uploads1 cfg env =
     listar_arquivos_sftp_recursivo1 (Some (hoje env)) (destino_uploads_dir cfg)
       (lista_uploads env)"

definition snapshot_processados1 :: "job_config \<Rightarrow> ambiente \<Rightarrow> arquivo_info dict" where
  "snapshot_processados1 cfg env =
     listar_arquivos_sftp_recursivo1 (Some (hoje env)) (destino_processados_dir cfg)
       (lista_processados env)"

definition snapshot_destino1 :: "job_config \<Rightarrow> ambiente \<Rightarrow> arquivo_info dict" where
  "snapshot_destino1 cfg env =
     arquivos_dest_rel1 cfg (snapshot_uploads1 cfg env) (snapshot_processados1 cfg env)"

definition snapshot_origem1 :: "job_config \<Rightarrow> ambiente \<Rightarrow> arquivo_info dict" where
  "snapshot_origem1 cfg env =
     listar_arquivos_sftp_recursivo1 (Some (hoje env)) (origem_remote_dir cfg) (lista_origem env)"

text \<open>\<open>destino_path\<close> of a source path (line 296).\<close>

definition destino_path1 :: "job_config \<Rightarrow> ambiente \<Rightarrow> string \<Rightarrow> string" where
  "destino_path1 cfg env caminho_remoto =
     juntar (destino_uploads_dir cfg) (rel_path_origem cfg env caminho_remoto)"

text \<open>The body of the loop over \<open>arquivos_origem.items()\<close> (lines 294-349).\<close>

definition processar1 ::
    "job_config \<Rightarrow> ambiente \<Rightarrow> arquivo_info dict \<Rightarrow> string \<times> arquivo_info
       \<Rightarrow> status_contador \<times> call list \<Rightarrow> status_contador \<times> call list" where
  "processar1 cfg env arquivos_dest_rel item st =
     (case decidir_e_remover env arquivos_dest_rel (rel_path_origem cfg env (fst item))
             (destino_path1 cfg env (fst item)) (snd item) st of
        (st1, False) \<Rightarrow> st1
      | (st1, True) \<Rightarrow>
          transferir (baixar1 env (fst item) (rel_path_origem cfg env (fst item))) env
            (rel_path_origem cfg env (fst item)) (destino_path1 cfg env (fst item)) st1)"

text \<open>\<open>main\<close>: an exception of one of the two sessions opened at the top leaves
  \<open>main\<close>, and so does the \<open>OverflowError\<close> of the date arithmetic of Cliente2;
  everything else is caught where it happens.\<close>

datatype erro = FalhaConexao endpoint | DataForaDoIntervalo

definition main1 :: "job_config \<Rightarrow> ambiente \<Rightarrow> (erro + status_contador) \<times> call list" where
  "main1 cfg env =
     (case chamar env (Connect Destino) [] of
        (Raised, tr0) \<Rightarrow> (Inl (FalhaConexao Destino), tr0)
      | (Returned _, tr0) \<Rightarrow>
          (case chamar env (Connect Origem) tr0 of
             (Raised, tr1) \<Rightarrow> (Inl (FalhaConexao Origem), tr1)
           | (Returned _, tr1) \<Rightarrow>
               (case fold (processar1 cfg env (snapshot_destino1 cfg env))
                       (snapshot_origem1 cfg env) (status_inicial, tr1) of
                  (status, tr2) \<Rightarrow> (Inr status, enviar_log cfg env tr2))))"

section \<open>SFTP\_Cliente2.py\<close>

text \<open>\<open>data_limite\<close> (line 282), and the two snapshots of a run (lines 292 and 304).
  \<open>timedelta(days=n)\<close> raises \<open>OverflowError\<close> unless \<open>n\<close> is within 999999999
  days, and the subtraction raises it unless the result is a date of the years 1 to 9999,
  whose day numbers are 1 to 3652059.\<close>

definition data_limite :: "job_config \<Rightarrow> ambiente \<Rightarrow> int" where
  "data_limite cfg env = hoje env - days_back cfg"

definition data_limite_representavel :: "job_config \<Rightarrow> ambiente \<Rightarrow> bool" where
  "data_limite_representavel cfg env =
     (- 999999999 \<le> days_back cfg \<and> days_back cfg \<le> 999999999
      \<and> 1 \<le> hoje env - days_back cfg \<and> hoje env - days_back cfg \<le> 3652059)"

definition snapshot_destino2 :: "job_config \<Rightarrow> ambiente \<Rightarrow> arquivo_info dict" where
  "snapshot_destino2 cfg env =
     fst (listar_arquivos_sftp_recursivo2 (Some (data_limite cfg env)) 0
            (destino_remote_dir cfg) (lista_destino env))"

definition snapshot_origem2 :: "job_config \<Rightarrow> ambiente \<Rightarrow> arquivo_info dict" where
  "snapshot_origem2 cfg env =
     fst (listar_arquivos_sftp_recursivo2 (Some (data_limite cfg env)) 0
            (origem_remote_dir cfg) (lista_origem env))"

text \<open>\<open>caminho_dest\<close> of a source path (line 309).\<close>

definition caminho_dest2 :: "job_config \<Rightarrow> ambiente \<Rightarrow> string \<Rightarrow> string" where
  "caminho_dest2 cfg env caminho =
     juntar (destino_remote_dir cfg) (rel_path_origem cfg env caminho)"

text \<open>The body of the loop (lines 307-368): the key is the destination path.\<close>

definition processar2 ::
    "job_config \<Rightarrow> ambiente \<Rightarrow> arquivo_info dict \<Rightarrow> string \<times> arquivo_info
       \<Rightarrow> status_contador \<times> call list \<Rightarrow> status_contador \<times> call list" where
  "processar2 cfg env arquivos_destino item st =
     (case decidir_e_remover env arquivos_destino (caminho_dest2 cfg env (fst item))
             (caminho_dest2 cfg env (fst item)) (snd item) st of
        (st1, False) \<Rightarrow> st1
      | (st1, True) \<Rightarrow>
          transferir (baixar2 cfg env (fst item) (rel_path_origem cfg env (fst item))) env
            (rel_path_origem cfg env (fst item)) (caminho_dest2 cfg env (fst item)) st1)"

text \<open>\<open>main\<close>: \<open>data_limite\<close> is computed before the first session is opened.\<close>

definition main2 :: "job_config \<Rightarrow> ambiente \<Rightarrow> (erro + status_contador) \<times> call list" where
  "main2 cfg env =
     (if \<not> data_limite_representavel cfg env then (Inl DataForaDoIntervalo, [])
      else
        (case chamar env (Connect Destino) [] of
           (Raised, tr0) \<Rightarrow> (Inl (FalhaConexao Destino), tr0)
         | (Returned _, tr0) \<Rightarrow>
             (case chamar env (Connect Origem) tr0 of
                (Raised, tr1) \<Rightarrow> (Inl (FalhaConexao Origem), tr1)
              | (Returned _, tr1) \<Rightarrow>
                  (case fold (processar2 cfg env (snapshot_destino2 cfg env))
                          (snapshot_origem2 cfg env) (status_inicial, tr1) of
                     (status, tr2) \<Rightarrow> (Inr status, enviar_log cfg env tr2)))))"

section \<open>Concrete configurations and environments\<close>

text \<open>\<open>os.path.relpath(path, start)\<close> for a path below \<open>start\<close> (posixpath, both
  absolute and normalised): what follows \<open>start\<close> and the slash.\<close>

definition relpath_simples :: "string \<Rightarrow> string \<Rightarrow> string" where
  "relpath_simples path start = drop (length (rstrip_barra start) + 1) path"

definition cfg_a :: job_config where
  "cfg_a =
     \<lparr>origem_remote_dir = ''/src'', destino_remote_dir = ''/dst'',
      destino_uploads_dir = ''/dst/uploads'', destino_processados_dir = ''/dst/processados'',
      destino_log_dir = ''/dst/logs'', log_filename = ''run.log'', days_back = 2,
      keep_extra_local_copy = True\<rparr>"

text \<open>An environment on day 10 from the answers to the calls and the four listings
  (uploads, processados, Cliente2 destination, source).\<close>

definition ambiente_de ::
    "(call list \<Rightarrow> call \<Rightarrow> outcome) \<Rightarrow> rnode list option \<Rightarrow> rnode list option
       \<Rightarrow> rnode list option \<Rightarrow> rnode list option \<Rightarrow> ambiente" where
  "ambiente_de r up pr de orig =
     \<lparr>hoje = 10, relpath = relpath_simples, resposta = r, lista_uploads = up,
      lista_processados = pr, lista_destino = de, lista_origem = orig\<rparr>"

text \<open>Every call succeeds and every path exists; the same with every \<open>get\<close> raising.\<close>

definition tudo_ok :: "call list \<Rightarrow> call \<Rightarrow> outcome" where
  "tudo_ok tr c = Returned True"

definition falha_get :: "call list \<Rightarrow> call \<Rightarrow> outcome" where
  "falha_get tr c = (case c of Get a b \<Rightarrow> Raised | _ \<Rightarrow> Returned True)"

text \<open>Every call succeeds except opening a session to one endpoint.\<close>

definition falha_conexao :: "endpoint \<Rightarrow> call list \<Rightarrow> call \<Rightarrow> outcome" where
  "falha_conexao e tr c = (if c = Connect e then Raised else Returned True)"

text \<open>A source root with one file of today, \<open>a.txt\<close> of size 10.\<close>

definition origem_a :: "rnode list option" where
  "origem_a = Some [RNode ''a.txt'' False 10 (Some 10) None]"



definition pasta_ilegivel :: rnode where
  "pasta_ilegivel = RNode ''fechada'' True 0 (Some 10) None"

definition arquivo_c :: rnode where
  "arquivo_c = RNode ''c.txt'' False 4 (Some 10) None"


text \<open>Whether one of the calls \<open>cs\<close>, made in this order after the history \<open>tr\<close>,
  raised; and whether a call made between the history \<open>tr\<close> and the longer history
  \<open>tr'\<close> raised.\<close>

fun alguma_levantou :: "ambiente \<Rightarrow> call list \<Rightarrow> call list \<Rightarrow> bool" where
  "alguma_levantou env tr [] = False"
| "alguma_levantou env tr (c # cs) =
     (resposta env tr c = Raised \<or> alguma_levantou env (tr @ [c]) cs)"

definition falhou :: "ambiente \<Rightarrow> call list \<Rightarrow> call list \<Rightarrow> bool" where
  "falhou env tr tr' = alguma_levantou env tr (drop (length tr) tr')"

text \<open>The calls of \<open>ensure_remote_dirs\<close>.\<close>

definition chamada_diretorio :: "call \<Rightarrow> bool" where
  "chamada_diretorio c = (case c of Exists a \<Rightarrow> True | Mkdir a \<Rightarrow> True | _ \<Rightarrow> False)"

text \<open>Every call succeeds except \<open>remove\<close>.\<close>

definition falha_remove :: "call list \<Rightarrow> call \<Rightarrow> outcome" where
  "falha_remove tr c = (case c of Remove a \<Rightarrow> Raised | _ \<Rightarrow> Returned True)"





text \<open>Every call succeeds except \<open>put\<close>.\<close>

definition falha_put :: "call list \<Rightarrow> call \<Rightarrow> outcome" where
  "falha_put tr c = (case c of Put a b \<Rightarrow> Raised | _ \<Rightarrow> Returned True)"

text \<open>A destination dict that has \<open>a.txt\<close> with size 5 under the key of each script, and
  the environment of day 10 whose source root is \<open>origem_a\<close> and whose destination
  listings raise.\<close>

definition destino_a :: "arquivo_info dict" where
  "destino_a =
     [(''a.txt'', \<lparr>tamanho = 5, data = 10\<rparr>), (''/dst/a.txt'', \<lparr>tamanho = 5, data = 10\<rparr>)]"

definition env_de :: "(call list \<Rightarrow> call \<Rightarrow> outcome) \<Rightarrow> ambiente" where
  "env_de r = ambiente_de r None None None origem_a"

text \<open>A readable directory with one file of today in it.\<close>

definition pasta_com :: "string \<Rightarrow> string \<Rightarrow> rnode" where
  "pasta_com nome arq = RNode nome True 0 (Some 10) (Some [RNode arq False 4 (Some 10) None])"

section \<open>The decision\<close>

lemma dict_get_map_data:
  "dict_get (map (\<lambda>(k, v). (k, v\<lparr>data := f k v\<rparr>)) destino) chave =
     map_option (\<lambda>v. v\<lparr>data := f chave v\<rparr>) (dict_get destino chave)"
  by (induction destino) (auto simp: dict_get_def)

lemma transferir_decisao:
  "novos (fst (transferir b env r p st)) = novos (fst st)
   \<and> iguais (fst (transferir b env r p st)) = iguais (fst st)
   \<and> reenviados (fst (transferir b env r p st)) = reenviados (fst st)"
  by (auto simp: transferir_def split: prod.splits bool.splits)

lemma passo_decisao:
  "novos (fst (case decidir_e_remover env dest chave p dados (st, tr) of
                 (st1, False) \<Rightarrow> st1
               | (st1, True) \<Rightarrow> transferir b env r p' st1))
     = novos st + (if decidir dest chave dados = Create then 1 else 0)
   \<and> iguais (fst (case decidir_e_remover env dest chave p dados (st, tr) of
                 (st1, False) \<Rightarrow> st1
               | (st1, True) \<Rightarrow> transferir b env r p' st1))
     = iguais st + (if decidir dest chave dados = Skip then 1 else 0)
   \<and> reenviados (fst (case decidir_e_remover env dest chave p dados (st, tr) of
                 (st1, False) \<Rightarrow> st1
               | (st1, True) \<Rightarrow> transferir b env r p' st1))
     = reenviados st + (if decidir dest chave dados = Replace then 1 else 0)"
proof (cases "decidir dest chave dados")
  case Skip
  then show ?thesis by (simp add: decidir_e_remover_def)
next
  case Create
  then show ?thesis by (simp add: decidir_e_remover_def transferir_decisao)
next
  case Replace
  then show ?thesis
    by (cases "remover env p tr")
       (simp add: decidir_e_remover_def transferir_decisao split: bool.splits)
qed

text \<open>C1. The decision for a key is Skip exactly when the key is in the destination
  dict with the same size, Create exactly when it is absent, Replace exactly when it is
  there with another size; and changing the dates of the destination records and of the
  source record in any way leaves the decision as it is. The loop body of each script
  takes this decision for the relative path of the entry (Cliente1; Cliente2 looks up the
  destination path made from it) and counts it in \<open>novos\<close>, \<open>iguais\<close> or
  \<open>reenviados\<close>.\<close>

theorem decidir_por_tamanho:
  "(decidir destino chave dados = Skip \<longleftrightarrow>
      (\<exists>d. dict_get destino chave = Some d \<and> tamanho d = tamanho dados))
   \<and> (decidir destino chave dados = Create \<longleftrightarrow> dict_get destino chave = None)
   \<and> (decidir destino chave dados = Replace \<longleftrightarrow>
      (\<exists>d. dict_get destino chave = Some d \<and> tamanho d \<noteq> tamanho dados))
   \<and> decidir (map (\<lambda>(k, v). (k, v\<lparr>data := f k v\<rparr>)) destino) chave (dados\<lparr>data := x\<rparr>)
       = decidir destino chave dados
   \<and> novos (fst (processar1 cfg env destino (c, dados) (st, tr)))
       = novos st + (if decidir destino (rel_path_origem cfg env c) dados = Create then 1 else 0)
   \<and> iguais (fst (processar1 cfg env destino (c, dados) (st, tr)))
       = iguais st + (if decidir destino (rel_path_origem cfg env c) dados = Skip then 1 else 0)
   \<and> reenviados (fst (processar1 cfg env destino (c, dados) (st, tr)))
       = reenviados st
         + (if decidir destino (rel_path_origem cfg env c) dados = Replace then 1 else 0)
   \<and> novos (fst (processar2 cfg env destino (c, dados) (st, tr)))
       = novos st + (if decidir destino (caminho_dest2 cfg env c) dados = Create then 1 else 0)
   \<and> iguais (fst (processar2 cfg env destino (c, dados) (st, tr)))
       = iguais st + (if decidir destino (caminho_dest2 cfg env c) dados = Skip then 1 else 0)
   \<and> reenviados (fst (processar2 cfg env destino (c, dados) (st, tr)))
       = reenviados st
         + (if decidir destino (caminho_dest2 cfg env c) dados = Replace then 1 else 0)"
proof -
  have a: "(decidir destino chave dados = Skip \<longleftrightarrow>
      (\<exists>d. dict_get destino chave = Some d \<and> tamanho d = tamanho dados))
   \<and> (decidir destino chave dados = Create \<longleftrightarrow> dict_get destino chave = None)
   \<and> (decidir destino chave dados = Replace \<longleftrightarrow>
      (\<exists>d. dict_get destino chave = Some d \<and> tamanho d \<noteq> tamanho dados))
   \<and> decidir (map (\<lambda>(k, v). (k, v\<lparr>data := f k v\<rparr>)) destino) chave (dados\<lparr>data := x\<rparr>)
       = decidir destino chave dados"
    by (auto simp: decidir_def dict_get_map_data split: option.splits)
  have b: "novos (fst (processar1 cfg env destino (c, dados) (st, tr)))
       = novos st + (if decidir destino (rel_path_origem cfg env c) dados = Create then 1 else 0)
   \<and> iguais (fst (processar1 cfg env destino (c, dados) (st, tr)))
       = iguais st + (if decidir destino (rel_path_origem cfg env c) dados = Skip then 1 else 0)
   \<and> reenviados (fst (processar1 cfg env destino (c, dados) (st, tr)))
       = reenviados st
         + (if decidir destino (rel_path_origem cfg env c) dados = Replace then 1 else 0)"
    unfolding processar1_def fst_conv snd_conv by (rule passo_decisao)
  have c: "novos (fst (processar2 cfg env destino (c, dados) (st, tr)))
       = novos st + (if decidir destino (caminho_dest2 cfg env c) dados = Create then 1 else 0)
   \<and> iguais (fst (processar2 cfg env destino (c, dados) (st, tr)))
       = iguais st + (if decidir destino (caminho_dest2 cfg env c) dados = Skip then 1 else 0)
   \<and> reenviados (fst (processar2 cfg env destino (c, dados) (st, tr)))
       = reenviados st
         + (if decidir destino (caminho_dest2 cfg env c) dados = Replace then 1 else 0)"
    unfolding processar2_def fst_conv snd_conv by (rule passo_decisao)
  from a b c show ?thesis by blast
qed

theorem decidir_por_tamanho_witness:
  "decidir [(''x.txt'', \<lparr>tamanho = 5, data = 1\<rparr>)] ''x.txt'' \<lparr>tamanho = 5, data = 9\<rparr> = Skip
   \<and> decidir [(''x.txt'', \<lparr>tamanho = 5, data = 1\<rparr>)] ''y.txt'' \<lparr>tamanho = 5, data = 1\<rparr> = Create
   \<and> decidir [(''x.txt'', \<lparr>tamanho = 5, data = 1\<rparr>)] ''x.txt'' \<lparr>tamanho = 20, data = 1\<rparr>
       = Replace"
  using
    decidir_por_tamanho [of "[(''x.txt'', \<lparr>tamanho = 5, data = 1\<rparr>)]" "''x.txt''"
      "\<lparr>tamanho = 5, data = 9\<rparr>"]
    decidir_por_tamanho [of "[(''x.txt'', \<lparr>tamanho = 5, data = 1\<rparr>)]" "''y.txt''"
      "\<lparr>tamanho = 5, data = 1\<rparr>"]
    decidir_por_tamanho [of "[(''x.txt'', \<lparr>tamanho = 5, data = 1\<rparr>)]" "''x.txt''"
      "\<lparr>tamanho = 20, data = 1\<rparr>"]
  by (simp add: dict_get_def)

section \<open>One entry of the loop\<close>

lemma decidir_Skip:
  "dict_get destino chave = Some d \<Longrightarrow> tamanho d = tamanho dados \<Longrightarrow>
     decidir destino chave dados = Skip"
  by (simp add: decidir_def)

lemma rel_path_x: "rel_path_origem cfg_a (ambiente_de r u p d orig) ''/src/x.txt'' = ''x.txt''"
  by (simp add: rel_path_origem_def cfg_a_def ambiente_de_def relpath_simples_def
      rstrip_barra_def py_replace_def barra_invertida_def)

lemma caminho_dest_x:
  "caminho_dest2 cfg_a (ambiente_de r u p d orig) ''/src/x.txt'' = ''/dst/x.txt''"
  by (simp add: caminho_dest2_def rel_path_x juntar_def)
     (simp add: cfg_a_def rstrip_barra_def py_replace_def)

text \<open>C7. When the key of a source entry (its relative path in Cliente1, its destination
  path in Cliente2) is in the destination dict with the same size, the loop body only
  adds one to \<open>iguais\<close>: the other counters are as before and the history of calls is
  unchanged, so no session is opened and no removal, local directory creation, download,
  remote directory creation or upload is made for the entry.\<close>

theorem igual_nao_toca:
  "(dict_get destino (rel_path_origem cfg env caminho) = Some d \<and> tamanho d = tamanho dados
      \<longrightarrow> processar1 cfg env destino (caminho, dados) (status, tr)
            = (status\<lparr>iguais := iguais status + 1\<rparr>, tr))
   \<and> (dict_get destino (caminho_dest2 cfg env caminho) = Some d \<and> tamanho d = tamanho dados
      \<longrightarrow> processar2 cfg env destino (caminho, dados) (status, tr)
            = (status\<lparr>iguais := iguais status + 1\<rparr>, tr))"
  by (simp add: processar1_def processar2_def decidir_e_remover_def decidir_Skip)

theorem igual_nao_toca_witness:
  "processar1 cfg_a (ambiente_de tudo_ok None None None None)
      [(''x.txt'', \<lparr>tamanho = 5, data = 10\<rparr>)] (''/src/x.txt'', \<lparr>tamanho = 5, data = 10\<rparr>)
      (status_inicial, [Connect Destino, Connect Origem])
     = (status_inicial\<lparr>iguais := 1\<rparr>, [Connect Destino, Connect Origem])
   \<and> processar2 cfg_a (ambiente_de tudo_ok None None None None)
      [(''/dst/x.txt'', \<lparr>tamanho = 5, data = 10\<rparr>)] (''/src/x.txt'', \<lparr>tamanho = 5, data = 10\<rparr>)
      (status_inicial, [Connect Destino, Connect Origem])
     = (status_inicial\<lparr>iguais := 1\<rparr>, [Connect Destino, Connect Origem])"
  using
    igual_nao_toca [of "[(''x.txt'', \<lparr>tamanho = 5, data = 10\<rparr>)]" cfg_a
      "ambiente_de tudo_ok None None None None" "''/src/x.txt''" "\<lparr>tamanho = 5, data = 10\<rparr>"
      "\<lparr>tamanho = 5, data = 10\<rparr>" status_inicial "[Connect Destino, Connect Origem]"]
    igual_nao_toca [of "[(''/dst/x.txt'', \<lparr>tamanho = 5, data = 10\<rparr>)]" cfg_a
      "ambiente_de tudo_ok None None None None" "''/src/x.txt''" "\<lparr>tamanho = 5, data = 10\<rparr>"
      "\<lparr>tamanho = 5, data = 10\<rparr>" status_inicial "[Connect Destino, Connect Origem]"]
  by (simp add: rel_path_x caminho_dest_x dict_get_def status_inicial_def)

lemma transferir_casos:
  "fst (transferir b env r p (s, tr)) = s
   \<or> fst (transferir b env r p (s, tr)) = s\<lparr>erros_download := erros_download s + 1\<rparr>
   \<or> fst (transferir b env r p (s, tr)) = s\<lparr>erros_upload := erros_upload s + 1\<rparr>"
  by (simp add: transferir_def split: prod.splits bool.splits)

lemma decidir_e_remover_casos:
  "decidir_e_remover env dest chave p dados (st, tr) = ((st\<lparr>iguais := iguais st + 1\<rparr>, tr), False)
   \<or> decidir_e_remover env dest chave p dados (st, tr) = ((st\<lparr>novos := novos st + 1\<rparr>, tr), True)
   \<or> (\<exists>tr1. decidir_e_remover env dest chave p dados (st, tr)
         = ((st\<lparr>reenviados := reenviados st + 1\<rparr>, tr1), True))
   \<or> (\<exists>tr1. decidir_e_remover env dest chave p dados (st, tr)
         = ((st\<lparr>erros_remocao := erros_remocao st + 1, reenviados := reenviados st + 1\<rparr>, tr1),
            True))"
  by (simp add: decidir_e_remover_def split: decisao.splits prod.splits bool.splits)

lemma passo_contadores:
  assumes "(case decidir_e_remover env dest chave p dados (st, tr) of
              (st1, False) \<Rightarrow> st1
            | (st1, True) \<Rightarrow> transferir b env r p' st1) = (st', tr')"
  shows
   "(iguais st' = iguais st + 1 \<and> novos st' = novos st \<and> reenviados st' = reenviados st
       \<and> erros_remocao st' = erros_remocao st
       \<and> erros_download st' = erros_download st \<and> erros_upload st' = erros_upload st)
    \<or> (novos st' = novos st + 1 \<and> iguais st' = iguais st \<and> reenviados st' = reenviados st
       \<and> erros_remocao st' = erros_remocao st
       \<and> (erros_download st' = erros_download st \<and> erros_upload st' = erros_upload st
          \<or> erros_download st' = erros_download st + 1 \<and> erros_upload st' = erros_upload st
          \<or> erros_download st' = erros_download st \<and> erros_upload st' = erros_upload st + 1))
    \<or> (reenviados st' = reenviados st + 1 \<and> novos st' = novos st \<and> iguais st' = iguais st
       \<and> (erros_remocao st' = erros_remocao st \<or> erros_remocao st' = erros_remocao st + 1)
       \<and> (erros_download st' = erros_download st \<and> erros_upload st' = erros_upload st
          \<or> erros_download st' = erros_download st + 1 \<and> erros_upload st' = erros_upload st
          \<or> erros_download st' = erros_download st \<and> erros_upload st' = erros_upload st + 1))"
proof -
  consider
    (igual) "decidir_e_remover env dest chave p dados (st, tr)
               = ((st\<lparr>iguais := iguais st + 1\<rparr>, tr), False)"
  | (novo) "decidir_e_remover env dest chave p dados (st, tr)
               = ((st\<lparr>novos := novos st + 1\<rparr>, tr), True)"
  | (reenvio) tr1 where "decidir_e_remover env dest chave p dados (st, tr)
               = ((st\<lparr>reenviados := reenviados st + 1\<rparr>, tr1), True)"
  | (reenvio_erro) tr1 where "decidir_e_remover env dest chave p dados (st, tr)
               = ((st\<lparr>erros_remocao := erros_remocao st + 1,
                       reenviados := reenviados st + 1\<rparr>, tr1), True)"
    using decidir_e_remover_casos [of env dest chave p dados st tr] by blast
  then show ?thesis
  proof cases
    case igual
    with assms have "st' = st\<lparr>iguais := iguais st + 1\<rparr>" by simp
    then show ?thesis by simp
  next
    case novo
    with assms have "st' = fst (transferir b env r p' (st\<lparr>novos := novos st + 1\<rparr>, tr))"
      by simp
    with transferir_casos [of b env r p' "st\<lparr>novos := novos st + 1\<rparr>" tr]
    have "st' = st\<lparr>novos := novos st + 1\<rparr>
      \<or> st' = st\<lparr>novos := novos st + 1, erros_download := erros_download st + 1\<rparr>
      \<or> st' = st\<lparr>novos := novos st + 1, erros_upload := erros_upload st + 1\<rparr>"
      by simp
    then show ?thesis
      by (elim disjE) simp_all
  next
    case reenvio
    with assms
    have "st' = fst (transferir b env r p' (st\<lparr>reenviados := reenviados st + 1\<rparr>, tr1))"
      by simp
    with transferir_casos [of b env r p' "st\<lparr>reenviados := reenviados st + 1\<rparr>" tr1]
    have "st' = st\<lparr>reenviados := reenviados st + 1\<rparr>
      \<or> st' = st\<lparr>reenviados := reenviados st + 1, erros_download := erros_download st + 1\<rparr>
      \<or> st' = st\<lparr>reenviados := reenviados st + 1, erros_upload := erros_upload st + 1\<rparr>"
      by simp
    then show ?thesis
      by (elim disjE) simp_all
  next
    case reenvio_erro
    with assms
    have "st' = fst (transferir b env r p'
                  (st\<lparr>erros_remocao := erros_remocao st + 1,
                      reenviados := reenviados st + 1\<rparr>, tr1))"
      by simp
    with transferir_casos [of b env r p'
        "st\<lparr>erros_remocao := erros_remocao st + 1, reenviados := reenviados st + 1\<rparr>" tr1]
    have "st' = st\<lparr>erros_remocao := erros_remocao st + 1, reenviados := reenviados st + 1\<rparr>
      \<or> st' = st\<lparr>erros_remocao := erros_remocao st + 1, reenviados := reenviados st + 1,
                 erros_download := erros_download st + 1\<rparr>
      \<or> st' = st\<lparr>erros_remocao := erros_remocao st + 1, reenviados := reenviados st + 1,
                 erros_upload := erros_upload st + 1\<rparr>"
      by simp
    then show ?thesis
      by (elim disjE) simp_all
  qed
qed

lemma processar1_falha_get:
  "processar1 cfg_a (ambiente_de falha_get None None None None) []
      (''/src/a.txt'', \<lparr>tamanho = 10, data = 10\<rparr>) (status_inicial, [])
   = (\<lparr>novos = 1, iguais = 0, reenviados = 0, erros_download = 1, erros_upload = 0,
       erros_remocao = 0\<rparr>,
      [LocalMkdirParent (TempPath ''a.txt''), Get ''/src/a.txt'' (TempPath ''a.txt'')])"
  by code_simp

text \<open>C4 as stated fails: a new entry whose download raises adds one to \<open>novos\<close> and one
  to \<open>erros_download\<close>, with no removal error.\<close>

theorem um_contador_por_entrada_counterexample:
  "fst (processar1 cfg_a (ambiente_de falha_get None None None None) []
          (''/src/a.txt'', \<lparr>tamanho = 10, data = 10\<rparr>) (status_inicial, []))
   = status_inicial\<lparr>novos := 1, erros_download := 1\<rparr>"
  unfolding processar1_falha_get by (simp add: status_inicial_def)

section \<open>The whole run\<close>

lemma decidir_e_remover_soma:
  "decidir_e_remover env dest chave p dados st = (st1, b) \<Longrightarrow>
     novos (fst st1) + iguais (fst st1) + reenviados (fst st1)
       = novos (fst st) + iguais (fst st) + reenviados (fst st) + 1"
  by (auto simp: decidir_e_remover_def split: decisao.splits prod.splits bool.splits)

lemma processar1_soma:
  "novos (fst (processar1 cfg env dest item st)) + iguais (fst (processar1 cfg env dest item st))
     + reenviados (fst (processar1 cfg env dest item st))
   = novos (fst st) + iguais (fst st) + reenviados (fst st) + 1"
  by (auto simp: processar1_def transferir_decisao split: prod.splits bool.splits
      dest: decidir_e_remover_soma)

lemma processar2_soma:
  "novos (fst (processar2 cfg env dest item st)) + iguais (fst (processar2 cfg env dest item st))
     + reenviados (fst (processar2 cfg env dest item st))
   = novos (fst st) + iguais (fst st) + reenviados (fst st) + 1"
  by (auto simp: processar2_def transferir_decisao split: prod.splits bool.splits
      dest: decidir_e_remover_soma)

lemma fold_soma:
  assumes "\<And>item st. novos (fst (f item st)) + iguais (fst (f item st)) + reenviados (fst (f item st))
     = novos (fst st) + iguais (fst st) + reenviados (fst st) + (1::int)"
  shows "novos (fst (fold f xs st)) + iguais (fst (fold f xs st)) + reenviados (fst (fold f xs st))
     = novos (fst st) + iguais (fst st) + reenviados (fst st) + int (length xs)"
proof (induction xs arbitrary: st)
  case Nil
  show ?case by simp
next
  case (Cons x xs)
  show ?case using Cons.IH [of "f x st"] assms [of x st] by simp
qed

lemma distinct_dict_set: "distinct (map fst d) \<Longrightarrow> distinct (map fst (dict_set k v d))"
  by (simp add: dict_set_def distinct_update)

lemma distinct_dict_update:
  "distinct (map fst d) \<Longrightarrow> distinct (map fst (dict_update d other))"
  unfolding dict_update_def
  by (induction other arbitrary: d) (auto simp: distinct_dict_set)

lemma distinct_listar1:
  shows "distinct (map fst (listar_arquivos_sftp_recursivo1 f dir l))"
    and "distinct (map fst acc) \<Longrightarrow> distinct (map fst (laco_listar1 f dir es acc))"
proof (induction f dir l and f dir es acc rule: listar_arquivos_sftp_recursivo1_laco_listar1.induct)
  case (4 filtro_data remote_dir nome isd sz dm cont es arquivos)
  then show ?case
    by (cases dm) (auto simp: distinct_dict_set distinct_dict_update)
qed simp_all

lemma distinct_listar2:
  shows "distinct (map fst (fst (listar_arquivos_sftp_recursivo2 f n dir l)))"
    and "distinct (map fst (fst st)) \<Longrightarrow> distinct (map fst (fst (laco_listar2 f n dir es st)))"
proof (induction f n dir l and f n dir es st rule: listar_arquivos_sftp_recursivo2_laco_listar2.induct)
  case (4 filtro_data_min nivel remote_dir nome isd sz dm cont es st)
  then show ?case
    by (cases dm) (auto simp: distinct_dict_set distinct_dict_update)
qed simp_all


lemma main1_casos:
  "main1 cfg env =
     (if resposta env [] (Connect Destino) = Raised
      then (Inl (FalhaConexao Destino), [Connect Destino])
      else if resposta env [Connect Destino] (Connect Origem) = Raised
      then (Inl (FalhaConexao Origem), [Connect Destino, Connect Origem])
      else (Inr (fst (fold (processar1 cfg env (snapshot_destino1 cfg env))
                        (snapshot_origem1 cfg env)
                        (status_inicial, [Connect Destino, Connect Origem]))),
            enviar_log cfg env
              (snd (fold (processar1 cfg env (snapshot_destino1 cfg env))
                        (snapshot_origem1 cfg env)
                        (status_inicial, [Connect Destino, Connect Origem])))))"
  by (simp add: main1_def chamar_def split: outcome.splits prod.splits)

lemma main2_casos:
  "main2 cfg env =
     (if \<not> data_limite_representavel cfg env then (Inl DataForaDoIntervalo, [])
      else if resposta env [] (Connect Destino) = Raised
      then (Inl (FalhaConexao Destino), [Connect Destino])
      else if resposta env [Connect Destino] (Connect Origem) = Raised
      then (Inl (FalhaConexao Origem), [Connect Destino, Connect Origem])
      else (Inr (fst (fold (processar2 cfg env (snapshot_destino2 cfg env))
                        (snapshot_origem2 cfg env)
                        (status_inicial, [Connect Destino, Connect Origem]))),
            enviar_log cfg env
              (snd (fold (processar2 cfg env (snapshot_destino2 cfg env))
                        (snapshot_origem2 cfg env)
                        (status_inicial, [Connect Destino, Connect Origem])))))"
  by (simp add: main2_def chamar_def split: outcome.splits prod.splits)

lemma soma_inicial: "novos status_inicial + iguais status_inicial + reenviados status_inicial = 0"
  by (simp add: status_inicial_def)

lemma main1_falha_get:
  "main1 cfg_a (ambiente_de falha_get None None None origem_a)
   = (Inr \<lparr>novos = 1, iguais = 0, reenviados = 0, erros_download = 1, erros_upload = 0,
           erros_remocao = 0\<rparr>,
      [Connect Destino, Connect Origem, LocalMkdirParent (TempPath ''a.txt''),
       Get ''/src/a.txt'' (TempPath ''a.txt''), Connect Destino, Exists ''/dst/logs'',
       Chdir ''/dst/logs'', Put LogPath ''run.log''])"
  by code_simp

text \<open>C10. When a run completes, \<open>novos + iguais + reenviados\<close> is the number of entries
  of the source snapshot (a dict: its keys are distinct), in both scripts; and each entry
  adds one to exactly one of the three, whatever the calls made for it answer.\<close>

theorem soma_decisoes_origem:
  "(fst (main1 cfg env) = Inr st \<longrightarrow>
      novos st + iguais st + reenviados st = int (length (snapshot_origem1 cfg env)))
   \<and> (fst (main2 cfg env) = Inr st \<longrightarrow>
      novos st + iguais st + reenviados st = int (length (snapshot_origem2 cfg env)))
   \<and> distinct (map fst (snapshot_origem1 cfg env))
   \<and> distinct (map fst (snapshot_origem2 cfg env))
   \<and> (processar1 cfg env dest item (s, tr) = (s', tr')
        \<or> processar2 cfg env dest item (s, tr) = (s', tr') \<longrightarrow>
      (novos s' = novos s + 1 \<and> iguais s' = iguais s \<and> reenviados s' = reenviados s)
      \<or> (novos s' = novos s \<and> iguais s' = iguais s + 1 \<and> reenviados s' = reenviados s)
      \<or> (novos s' = novos s \<and> iguais s' = iguais s \<and> reenviados s' = reenviados s + 1))"
proof (intro conjI impI)
  assume "fst (main1 cfg env) = Inr st"
  then have "st = fst (fold (processar1 cfg env (snapshot_destino1 cfg env))
                        (snapshot_origem1 cfg env)
                        (status_inicial, [Connect Destino, Connect Origem]))"
    by (simp add: main1_casos split: if_splits)
  then show "novos st + iguais st + reenviados st = int (length (snapshot_origem1 cfg env))"
    using fold_soma [of "processar1 cfg env (snapshot_destino1 cfg env)", OF processar1_soma,
        of "snapshot_origem1 cfg env" "(status_inicial, [Connect Destino, Connect Origem])"]
    by (simp add: soma_inicial)
next
  assume "fst (main2 cfg env) = Inr st"
  then have "st = fst (fold (processar2 cfg env (snapshot_destino2 cfg env))
                        (snapshot_origem2 cfg env)
                        (status_inicial, [Connect Destino, Connect Origem]))"
    by (simp add: main2_casos split: if_splits)
  then show "novos st + iguais st + reenviados st = int (length (snapshot_origem2 cfg env))"
    using fold_soma [of "processar2 cfg env (snapshot_destino2 cfg env)", OF processar2_soma,
        of "snapshot_origem2 cfg env" "(status_inicial, [Connect Destino, Connect Origem])"]
    by (simp add: soma_inicial)
next
  show "distinct (map fst (snapshot_origem1 cfg env))"
    by (simp add: snapshot_origem1_def distinct_listar1)
next
  show "distinct (map fst (snapshot_origem2 cfg env))"
    by (simp add: snapshot_origem2_def distinct_listar2)
next
  assume "processar1 cfg env dest item (s, tr) = (s', tr')
        \<or> processar2 cfg env dest item (s, tr) = (s', tr')"
  then have "(case decidir_e_remover env dest (rel_path_origem cfg env (fst item))
                     (destino_path1 cfg env (fst item)) (snd item) (s, tr) of
                (st1, False) \<Rightarrow> st1
              | (st1, True) \<Rightarrow>
                  transferir (baixar1 env (fst item) (rel_path_origem cfg env (fst item))) env
                    (rel_path_origem cfg env (fst item)) (destino_path1 cfg env (fst item)) st1)
               = (s', tr')
          \<or> (case decidir_e_remover env dest (caminho_dest2 cfg env (fst item))
                     (caminho_dest2 cfg env (fst item)) (snd item) (s, tr) of
                (st1, False) \<Rightarrow> st1
              | (st1, True) \<Rightarrow>
                  transferir (baixar2 cfg env (fst item) (rel_path_origem cfg env (fst item)))
                    env (rel_path_origem cfg env (fst item)) (caminho_dest2 cfg env (fst item))
                    st1)
               = (s', tr')"
    by (simp add: processar1_def processar2_def)
  then show "(novos s' = novos s + 1 \<and> iguais s' = iguais s \<and> reenviados s' = reenviados s)
      \<or> (novos s' = novos s \<and> iguais s' = iguais s + 1 \<and> reenviados s' = reenviados s)
      \<or> (novos s' = novos s \<and> iguais s' = iguais s \<and> reenviados s' = reenviados s + 1)"
  proof
    assume a: "(case decidir_e_remover env dest (rel_path_origem cfg env (fst item))
                     (destino_path1 cfg env (fst item)) (snd item) (s, tr) of
                (st1, False) \<Rightarrow> st1
              | (st1, True) \<Rightarrow>
                  transferir (baixar1 env (fst item) (rel_path_origem cfg env (fst item))) env
                    (rel_path_origem cfg env (fst item)) (destino_path1 cfg env (fst item)) st1)
               = (s', tr')"
    show ?thesis using passo_contadores [OF a] by blast
  next
    assume a: "(case decidir_e_remover env dest (caminho_dest2 cfg env (fst item))
                     (caminho_dest2 cfg env (fst item)) (snd item) (s, tr) of
                (st1, False) \<Rightarrow> st1
              | (st1, True) \<Rightarrow>
                  transferir (baixar2 cfg env (fst item) (rel_path_origem cfg env (fst item)))
                    env (rel_path_origem cfg env (fst item)) (caminho_dest2 cfg env (fst item))
                    st1)
               = (s', tr')"
    show ?thesis using passo_contadores [OF a] by blast
  qed
qed

theorem soma_decisoes_origem_witness:
  "fst (main1 cfg_a (ambiente_de falha_get None None None origem_a))
     = Inr \<lparr>novos = 1, iguais = 0, reenviados = 0, erros_download = 1, erros_upload = 0,
            erros_remocao = 0\<rparr>
   \<and> length (snapshot_origem1 cfg_a (ambiente_de falha_get None None None origem_a)) = 1"
  using soma_decisoes_origem [of cfg_a "ambiente_de falha_get None None None origem_a"
      "\<lparr>novos = 1, iguais = 0, reenviados = 0, erros_download = 1, erros_upload = 0,
        erros_remocao = 0\<rparr>"]
    main1_falha_get
  by simp

section \<open>The listing\<close>

subsection \<open>Dates of the listed files\<close>













subsection \<open>A directory that cannot be listed\<close>

lemma laco1_Cons:
  "laco_listar1 f dir (x # es) acc =
     (case passo_listar1 f dir x acc of None \<Rightarrow> acc | Some acc' \<Rightarrow> laco_listar1 f dir es acc')"
  by (cases x) (simp add: passo_listar1_def split: option.splits)

lemma laco2_Cons:
  "laco_listar2 f n dir (x # es) st =
     (case passo_listar2 f n dir x st of
        None \<Rightarrow> (fst st, snd st @ [ErroListar dir])
      | Some st' \<Rightarrow> laco_listar2 f n dir es st')"
  by (cases x) (simp add: passo_listar2_def split: option.splits)

lemma dict_update_Nil: "dict_update d [] = d"
  by (simp add: dict_update_def)

lemma passo1_pasta_falha:
  "is_dir e \<Longrightarrow> data_mod e = Some d \<Longrightarrow> conteudo e = None \<Longrightarrow> passo_listar1 f dir e acc = Some acc"
  by (simp add: passo_listar1_def dict_update_Nil)

lemma laco1_pasta_falha:
  assumes "is_dir e" "data_mod e = Some d" "conteudo e = None"
  shows "laco_listar1 f dir (es1 @ e # es2) acc = laco_listar1 f dir (es1 @ es2) acc"
proof (induction es1 arbitrary: acc)
  case Nil
  show ?case by (simp add: laco1_Cons passo1_pasta_falha [OF assms])
next
  case (Cons x es1)
  show ?case by (simp add: laco1_Cons Cons.IH split: option.splits)
qed

lemma chaves_dict_set: "fst ` set acc \<subseteq> fst ` set (dict_set k v acc)"
  by (auto simp: dict_set_def dom_update)

lemma chaves_dict_update: "fst ` set acc \<subseteq> fst ` set (dict_update acc other)"
  unfolding dict_update_def
proof (induction other arbitrary: acc)
  case Nil
  show ?case by simp
next
  case (Cons a other)
  obtain k v where a: "a = (k, v)" by (cases a)
  have "fst ` set acc \<subseteq> fst ` set (dict_set k v acc)"
    by (rule chaves_dict_set)
  also have "\<dots> \<subseteq> fst ` set (fold (\<lambda>(k, v). dict_set k v) other (dict_set k v acc))"
    by (rule Cons.IH)
  finally show ?case by (simp add: a)
qed

lemma chaves_passo1:
  assumes "passo_listar1 f dir x acc = Some acc'"
  shows "fst ` set acc \<subseteq> fst ` set acc'"
proof -
  from assms obtain d where d: "data_mod x = Some d"
    by (cases "data_mod x") (simp_all add: passo_listar1_def)
  from assms d have
    "acc' = dict_update acc
              (listar_arquivos_sftp_recursivo1 f (juntar dir (filename x)) (conteudo x))
     \<or> acc' = dict_set (juntar dir (filename x)) \<lparr>tamanho = st_size x, data = d\<rparr> acc
     \<or> acc' = acc"
    by (auto simp: passo_listar1_def split: if_splits)
  then show ?thesis
    using chaves_dict_set [of acc] chaves_dict_update [of acc] by (elim disjE) simp_all
qed

lemma chaves_laco1: "fst ` set acc \<subseteq> fst ` set (laco_listar1 f dir es acc)"
proof (induction es arbitrary: acc)
  case Nil
  show ?case by simp
next
  case (Cons x es)
  show ?case
  proof (cases "passo_listar1 f dir x acc")
    case None
    then show ?thesis by (simp add: laco1_Cons)
  next
    case (Some acc')
    have "fst ` set acc \<subseteq> fst ` set acc'" using Some by (rule chaves_passo1)
    also have "\<dots> \<subseteq> fst ` set (laco_listar1 f dir es acc')" by (rule Cons.IH)
    finally show ?thesis by (simp add: laco1_Cons Some)
  qed
qed

lemma passo2_fst_log:
  "map_option fst (passo_listar2 f n dir x (a, l)) = map_option fst (passo_listar2 f n dir x (a, l'))"
  by (simp add: passo_listar2_def split: option.splits)

lemma laco2_fst_log:
  "fst (laco_listar2 f n dir es (a, l)) = fst (laco_listar2 f n dir es (a, l'))"
proof (induction es arbitrary: a l l')
  case Nil
  show ?case by simp
next
  case (Cons x es)
  show ?case
  proof (cases "passo_listar2 f n dir x (a, l)")
    case None
    with passo2_fst_log [of f n dir x a l l'] have "passo_listar2 f n dir x (a, l') = None"
      by simp
    with None show ?thesis by (simp add: laco2_Cons)
  next
    case (Some st1)
    obtain a1 l1 where st1: "st1 = (a1, l1)" by (cases st1)
    with Some passo2_fst_log [of f n dir x a l l']
    obtain l2 where st2: "passo_listar2 f n dir x (a, l') = Some (a1, l2)"
      by (cases "passo_listar2 f n dir x (a, l')") auto
    have "fst (laco_listar2 f n dir es (a1, l1)) = fst (laco_listar2 f n dir es (a1, l2))"
      by (rule Cons.IH)
    then show ?thesis using Some st1 st2 by (simp add: laco2_Cons)
  qed
qed

lemma passo2_pasta_falha:
  "is_dir e \<Longrightarrow> data_mod e = Some d \<Longrightarrow> conteudo e = None \<Longrightarrow>
     \<exists>l. passo_listar2 f n dir e st = Some (fst st, l)"
  by (simp add: passo_listar2_def dict_update_Nil)

lemma laco2_pasta_falha:
  assumes "is_dir e" "data_mod e = Some d" "conteudo e = None"
  shows "fst (laco_listar2 f n dir (es1 @ e # es2) st) = fst (laco_listar2 f n dir (es1 @ es2) st)"
proof (induction es1 arbitrary: st)
  case Nil
  obtain l where l: "passo_listar2 f n dir e st = Some (fst st, l)"
    using passo2_pasta_falha [OF assms] by blast
  have "fst (laco_listar2 f n dir es2 (fst st, l)) = fst (laco_listar2 f n dir es2 (fst st, snd st))"
    by (rule laco2_fst_log)
  then show ?case by (simp add: laco2_Cons l)
next
  case (Cons x es1)
  show ?case by (simp add: laco2_Cons Cons.IH split: option.splits)
qed

lemma chaves_passo2:
  assumes "passo_listar2 f n dir x st = Some st'"
  shows "fst ` set (fst st) \<subseteq> fst ` set (fst st')"
proof -
  from assms obtain d where d: "data_mod x = Some d"
    by (cases "data_mod x") (simp_all add: passo_listar2_def)
  from assms d have
    "fst st' = dict_update (fst st)
              (fst (listar_arquivos_sftp_recursivo2 f (n + 1) (juntar dir (filename x))
                      (conteudo x)))
     \<or> fst st' = dict_set (juntar dir (filename x)) \<lparr>tamanho = st_size x, data = d\<rparr> (fst st)
     \<or> fst st' = fst st"
    by (auto simp: passo_listar2_def split: if_splits)
  then show ?thesis
    using chaves_dict_set [of "fst st"] chaves_dict_update [of "fst st"]
    by (elim disjE) simp_all
qed

lemma chaves_laco2: "fst ` set (fst st) \<subseteq> fst ` set (fst (laco_listar2 f n dir es st))"
proof (induction es arbitrary: st)
  case Nil
  show ?case by simp
next
  case (Cons x es)
  show ?case
  proof (cases "passo_listar2 f n dir x st")
    case None
    then show ?thesis by (simp add: laco2_Cons)
  next
    case (Some st')
    have "fst ` set (fst st) \<subseteq> fst ` set (fst st')" using Some by (rule chaves_passo2)
    also have "\<dots> \<subseteq> fst ` set (fst (laco_listar2 f n dir es st'))" by (rule Cons.IH)
    finally show ?thesis by (simp add: laco2_Cons Some)
  qed
qed

lemma laco2_append:
  "\<forall>x \<in> set es1. data_mod x \<noteq> None \<Longrightarrow>
     laco_listar2 f n dir (es1 @ es2) st = laco_listar2 f n dir es2 (laco_listar2 f n dir es1 st)"
proof (induction es1 arbitrary: st)
  case Nil
  show ?case by simp
next
  case (Cons x es1)
  then obtain st' where "passo_listar2 f n dir x st = Some st'"
    by (cases "data_mod x") (simp_all add: passo_listar2_def)
  with Cons show ?case by (simp add: laco2_Cons)
qed

lemma chaves_dict_update_outro: "fst ` set other \<subseteq> fst ` set (dict_update acc other)"
  unfolding dict_update_def
proof (induction other arbitrary: acc)
  case Nil
  show ?case by simp
next
  case (Cons a other)
  obtain k v where a: "a = (k, v)" by (cases a)
  have "k \<in> fst ` set (dict_set k v acc)" by (simp add: dict_set_def dom_update)
  also have "fst ` set (dict_set k v acc)
      \<subseteq> fst ` set (fold (\<lambda>(k, v). dict_set k v) other (dict_set k v acc))"
    using chaves_dict_update [of "dict_set k v acc" other] by (simp add: dict_update_def)
  finally have 1: "k \<in> fst ` set (fold (\<lambda>(k, v). dict_set k v) other (dict_set k v acc))" .
  have 2: "fst ` set other \<subseteq> fst ` set (fold (\<lambda>(k, v). dict_set k v) other (dict_set k v acc))"
    by (rule Cons.IH)
  from 1 2 show ?case by (simp add: a)
qed

lemma laco1_append:
  "\<forall>x \<in> set es1. data_mod x \<noteq> None \<Longrightarrow>
     laco_listar1 f dir (es1 @ es2) acc = laco_listar1 f dir es2 (laco_listar1 f dir es1 acc)"
proof (induction es1 arbitrary: acc)
  case Nil
  show ?case by simp
next
  case (Cons x es1)
  then obtain acc' where "passo_listar1 f dir x acc = Some acc'"
    by (cases "data_mod x") (simp_all add: passo_listar1_def)
  with Cons show ?case by (simp add: laco1_Cons)
qed

lemma subpasta_listada1:
  assumes "\<forall>x \<in> set pre. data_mod x \<noteq> None" "is_dir sb" "data_mod sb \<noteq> None"
  shows "fst ` set (listar_arquivos_sftp_recursivo1 f (juntar dir (filename sb)) (conteudo sb))
           \<subseteq> fst ` set (listar_arquivos_sftp_recursivo1 f dir (Some (pre @ sb # post)))"
proof -
  let ?a = "laco_listar1 f dir pre []"
  let ?sub = "listar_arquivos_sftp_recursivo1 f (juntar dir (filename sb)) (conteudo sb)"
  have p: "passo_listar1 f dir sb ?a = Some (dict_update ?a ?sub)"
    using assms(2,3) by (auto simp: passo_listar1_def)
  have "fst ` set ?sub \<subseteq> fst ` set (dict_update ?a ?sub)" by (rule chaves_dict_update_outro)
  also have "\<dots> \<subseteq> fst ` set (laco_listar1 f dir post (dict_update ?a ?sub))"
    by (rule chaves_laco1)
  finally show ?thesis
    using laco1_append [OF assms(1), of f dir "sb # post" "[]"] p by (simp add: laco1_Cons)
qed

lemma arquivo_listado1:
  assumes "\<forall>x \<in> set pre. data_mod x \<noteq> None" "\<not> is_dir sb" "data_mod sb = Some d"
    "f = None \<or> Some d = f"
  shows "juntar dir (filename sb)
           \<in> fst ` set (listar_arquivos_sftp_recursivo1 f dir (Some (pre @ sb # post)))"
proof -
  let ?a = "laco_listar1 f dir pre []"
  let ?n = "dict_set (juntar dir (filename sb)) \<lparr>tamanho = st_size sb, data = d\<rparr> ?a"
  have p: "passo_listar1 f dir sb ?a = Some ?n"
    using assms(2,3,4) by (auto simp: passo_listar1_def)
  have "juntar dir (filename sb) \<in> fst ` set ?n" by (simp add: dict_set_def dom_update)
  also have "fst ` set ?n \<subseteq> fst ` set (laco_listar1 f dir post ?n)" by (rule chaves_laco1)
  finally show ?thesis
    using laco1_append [OF assms(1), of f dir "sb # post" "[]"] p by (simp add: laco1_Cons)
qed

lemma subpasta_listada2:
  assumes "\<forall>x \<in> set pre. data_mod x \<noteq> None" "is_dir sb" "data_mod sb = Some d"
    "\<not> (n = 0 \<and> (case g of None \<Rightarrow> False | Some m \<Rightarrow> d < m))"
  shows "fst ` set (fst (listar_arquivos_sftp_recursivo2 g (n + 1) (juntar dir (filename sb))
                           (conteudo sb)))
           \<subseteq> fst ` set (fst (listar_arquivos_sftp_recursivo2 g n dir (Some (pre @ sb # post))))"
proof -
  let ?a = "laco_listar2 g n dir pre ([], [ListDir dir])"
  let ?sub = "listar_arquivos_sftp_recursivo2 g (n + 1) (juntar dir (filename sb)) (conteudo sb)"
  let ?n = "(dict_update (fst ?a) (fst ?sub), snd ?a @ snd ?sub)"
  have p: "passo_listar2 g n dir sb ?a = Some ?n"
    using assms(2,3,4) by (auto simp: passo_listar2_def)
  have "fst ` set (fst ?sub) \<subseteq> fst ` set (fst ?n)"
    using chaves_dict_update_outro [of "fst ?sub" "fst ?a"] by simp
  also have "\<dots> \<subseteq> fst ` set (fst (laco_listar2 g n dir post ?n))"
    by (rule chaves_laco2)
  finally show ?thesis
    using laco2_append [OF assms(1), of g n dir "sb # post" "([], [ListDir dir])"] p
    by (simp add: laco2_Cons)
qed

lemma arquivo_listado2:
  assumes "\<forall>x \<in> set pre. data_mod x \<noteq> None" "\<not> is_dir sb" "data_mod sb = Some d"
    "case g of None \<Rightarrow> True | Some m \<Rightarrow> m \<le> d"
  shows "juntar dir (filename sb)
           \<in> fst ` set (fst (listar_arquivos_sftp_recursivo2 g n dir (Some (pre @ sb # post))))"
proof -
  let ?a = "laco_listar2 g n dir pre ([], [ListDir dir])"
  let ?n = "(dict_set (juntar dir (filename sb)) \<lparr>tamanho = st_size sb, data = d\<rparr> (fst ?a),
             snd ?a)"
  have p: "passo_listar2 g n dir sb ?a = Some ?n"
    using assms(2,3,4) by (auto simp: passo_listar2_def)
  have "juntar dir (filename sb) \<in> fst ` set (fst ?n)" by (simp add: dict_set_def dom_update)
  also have "fst ` set (fst ?n) \<subseteq> fst ` set (fst (laco_listar2 g n dir post ?n))"
    by (rule chaves_laco2)
  finally show ?thesis
    using laco2_append [OF assms(1), of g n dir "sb # post" "([], [ListDir dir])"] p
    by (simp add: laco2_Cons)
qed

lemma irmao_decomposto:
  assumes "data_mod e \<noteq> None" "\<forall>x \<in> set (es1 @ es2). data_mod x \<noteq> None" "sb \<in> set (es1 @ es2)"
  shows "\<exists>pre post. es1 @ e # es2 = pre @ sb # post \<and> (\<forall>x \<in> set pre. data_mod x \<noteq> None)"
proof (cases "sb \<in> set es1")
  case True
  then obtain a b where ab: "es1 = a @ sb # b" by (meson split_list)
  have "es1 @ e # es2 = a @ sb # (b @ e # es2)" by (simp add: ab)
  moreover have "\<forall>x \<in> set a. data_mod x \<noteq> None" using assms(2) ab by auto
  ultimately show ?thesis by blast
next
  case False
  with assms(3) have "sb \<in> set es2" by simp
  then obtain a b where ab: "es2 = a @ sb # b" by (meson split_list)
  have "es1 @ e # es2 = (es1 @ e # a) @ sb # b" by (simp add: ab)
  moreover have "\<forall>x \<in> set (es1 @ e # a). data_mod x \<noteq> None" using assms(1,2) ab by auto
  ultimately show ?thesis by blast
qed


text \<open>C5. A listing that raises gives the empty dict, not an exception. A directory
  entry whose own listing raises contributes nothing: the result is the one of the same
  listing without that entry, and the keys collected so far are keys of the result of the
  loop. Its siblings are listed all the same, before it or after it, when no entry of the
  directory lacks its date: the paths listed under a sibling directory (in Cliente2 one
  that is not skipped as old) are keys of the result, and so is the path of a sibling file
  that passes the date filter.\<close>

theorem falha_de_listagem_isolada:
  "listar_arquivos_sftp_recursivo1 f dir None = []
   \<and> fst (listar_arquivos_sftp_recursivo2 g n dir None) = []
   \<and> (is_dir e \<and> data_mod e \<noteq> None \<and> conteudo e = None \<longrightarrow>
        listar_arquivos_sftp_recursivo1 f dir (Some (es1 @ e # es2))
          = listar_arquivos_sftp_recursivo1 f dir (Some (es1 @ es2))
        \<and> fst (listar_arquivos_sftp_recursivo2 g n dir (Some (es1 @ e # es2)))
          = fst (listar_arquivos_sftp_recursivo2 g n dir (Some (es1 @ es2))))
   \<and> fst ` set acc \<subseteq> fst ` set (laco_listar1 f dir es acc)
   \<and> fst ` set (fst st) \<subseteq> fst ` set (fst (laco_listar2 g n dir es st))
   \<and> (is_dir e \<and> data_mod e \<noteq> None \<and> conteudo e = None
       \<and> (\<forall>x \<in> set (es1 @ es2). data_mod x \<noteq> None) \<and> sb \<in> set (es1 @ es2)
       \<and> data_mod sb = Some d \<longrightarrow>
        (is_dir sb \<longrightarrow>
           fst ` set (listar_arquivos_sftp_recursivo1 f (juntar dir (filename sb)) (conteudo sb))
             \<subseteq> fst ` set (listar_arquivos_sftp_recursivo1 f dir (Some (es1 @ e # es2))))
        \<and> (is_dir sb \<and> \<not> (n = 0 \<and> (case g of None \<Rightarrow> False | Some m \<Rightarrow> d < m)) \<longrightarrow>
           fst ` set (fst (listar_arquivos_sftp_recursivo2 g (n + 1) (juntar dir (filename sb))
                             (conteudo sb)))
             \<subseteq> fst ` set (fst (listar_arquivos_sftp_recursivo2 g n dir
                                  (Some (es1 @ e # es2)))))
        \<and> (\<not> is_dir sb \<and> (f = None \<or> Some d = f) \<longrightarrow>
           juntar dir (filename sb)
             \<in> fst ` set (listar_arquivos_sftp_recursivo1 f dir (Some (es1 @ e # es2))))
        \<and> (\<not> is_dir sb \<and> (case g of None \<Rightarrow> True | Some m \<Rightarrow> m \<le> d) \<longrightarrow>
           juntar dir (filename sb)
             \<in> fst ` set (fst (listar_arquivos_sftp_recursivo2 g n dir
                                  (Some (es1 @ e # es2))))))"
proof (intro conjI impI)
  assume a: "is_dir e \<and> data_mod e \<noteq> None \<and> conteudo e = None"
  then obtain d' where d: "data_mod e = Some d'" by auto
  from a d show "listar_arquivos_sftp_recursivo1 f dir (Some (es1 @ e # es2))
          = listar_arquivos_sftp_recursivo1 f dir (Some (es1 @ es2))"
    by (simp add: laco1_pasta_falha)
  from a d show "fst (listar_arquivos_sftp_recursivo2 g n dir (Some (es1 @ e # es2)))
          = fst (listar_arquivos_sftp_recursivo2 g n dir (Some (es1 @ es2)))"
    by (simp add: laco2_pasta_falha)
next
  assume a: "is_dir e \<and> data_mod e \<noteq> None \<and> conteudo e = None
       \<and> (\<forall>x \<in> set (es1 @ es2). data_mod x \<noteq> None) \<and> sb \<in> set (es1 @ es2)
       \<and> data_mod sb = Some d"
  then obtain pre post where pp: "es1 @ e # es2 = pre @ sb # post"
      "\<forall>x \<in> set pre. data_mod x \<noteq> None"
    using irmao_decomposto [of e es1 es2 sb] by blast
  from a have sd: "data_mod sb = Some d" by blast
  {
    assume "is_dir sb"
    then show "fst ` set (listar_arquivos_sftp_recursivo1 f (juntar dir (filename sb)) (conteudo sb))
             \<subseteq> fst ` set (listar_arquivos_sftp_recursivo1 f dir (Some (es1 @ e # es2)))"
      unfolding pp(1) using pp(2) sd by (intro subpasta_listada1) simp_all
  next
    assume "is_dir sb \<and> \<not> (n = 0 \<and> (case g of None \<Rightarrow> False | Some m \<Rightarrow> d < m))"
    then show "fst ` set (fst (listar_arquivos_sftp_recursivo2 g (n + 1) (juntar dir (filename sb))
                             (conteudo sb)))
             \<subseteq> fst ` set (fst (listar_arquivos_sftp_recursivo2 g n dir
                                  (Some (es1 @ e # es2))))"
      unfolding pp(1) using pp(2) sd by (intro subpasta_listada2 [where d = d]) blast+
  next
    assume "\<not> is_dir sb \<and> (f = None \<or> Some d = f)"
    then show "juntar dir (filename sb)
             \<in> fst ` set (listar_arquivos_sftp_recursivo1 f dir (Some (es1 @ e # es2)))"
      unfolding pp(1) using pp(2) sd by (intro arquivo_listado1 [where d = d]) blast+
  next
    assume "\<not> is_dir sb \<and> (case g of None \<Rightarrow> True | Some m \<Rightarrow> m \<le> d)"
    then show "juntar dir (filename sb)
             \<in> fst ` set (fst (listar_arquivos_sftp_recursivo2 g n dir
                                  (Some (es1 @ e # es2))))"
      unfolding pp(1) using pp(2) sd by (intro arquivo_listado2 [where d = d]) blast+
  }
qed (simp_all add: chaves_laco1 chaves_laco2)

lemma caminhada_com_falha:
  "listar_arquivos_sftp_recursivo1 (Some 10) ''/src''
     (Some ([pasta_com ''antes'' ''p.txt''] @ pasta_ilegivel
              # [pasta_com ''depois'' ''q.txt'', arquivo_c]))
   = [(''/src/antes/p.txt'', \<lparr>tamanho = 4, data = 10\<rparr>),
      (''/src/depois/q.txt'', \<lparr>tamanho = 4, data = 10\<rparr>),
      (''/src/c.txt'', \<lparr>tamanho = 4, data = 10\<rparr>)]
   \<and> listar_arquivos_sftp_recursivo2 (Some 8) 0 ''/src''
     (Some ([pasta_com ''antes'' ''p.txt''] @ pasta_ilegivel
              # [pasta_com ''depois'' ''q.txt'', arquivo_c]))
   = ([(''/src/antes/p.txt'', \<lparr>tamanho = 4, data = 10\<rparr>),
       (''/src/depois/q.txt'', \<lparr>tamanho = 4, data = 10\<rparr>),
       (''/src/c.txt'', \<lparr>tamanho = 4, data = 10\<rparr>)],
      [ListDir ''/src'', ListDir ''/src/antes'', ListDir ''/src/fechada'',
       ErroListar ''/src/fechada'', ListDir ''/src/depois''])"
  by code_simp

theorem falha_de_listagem_isolada_witness:
  "is_dir pasta_ilegivel \<and> data_mod pasta_ilegivel = Some 10 \<and> conteudo pasta_ilegivel = None
   \<and> is_dir (pasta_com ''depois'' ''q.txt'')
   \<and> fst ` set (listar_arquivos_sftp_recursivo1 (Some 10)
                  (juntar ''/src'' (filename (pasta_com ''depois'' ''q.txt'')))
                  (conteudo (pasta_com ''depois'' ''q.txt'')))
       \<subseteq> fst ` set (listar_arquivos_sftp_recursivo1 (Some 10) ''/src''
                       (Some ([pasta_com ''antes'' ''p.txt''] @ pasta_ilegivel
                                # [pasta_com ''depois'' ''q.txt'', arquivo_c])))
   \<and> fst ` set (fst (listar_arquivos_sftp_recursivo2 (Some 8) (0 + 1)
                       (juntar ''/src'' (filename (pasta_com ''depois'' ''q.txt'')))
                       (conteudo (pasta_com ''depois'' ''q.txt''))))
       \<subseteq> fst ` set (fst (listar_arquivos_sftp_recursivo2 (Some 8) 0 ''/src''
                            (Some ([pasta_com ''antes'' ''p.txt''] @ pasta_ilegivel
                                     # [pasta_com ''depois'' ''q.txt'', arquivo_c]))))
   \<and> listar_arquivos_sftp_recursivo1 (Some 10) ''/src''
       (Some ([pasta_com ''antes'' ''p.txt''] @ pasta_ilegivel
                # [pasta_com ''depois'' ''q.txt'', arquivo_c]))
     = [(''/src/antes/p.txt'', \<lparr>tamanho = 4, data = 10\<rparr>),
        (''/src/depois/q.txt'', \<lparr>tamanho = 4, data = 10\<rparr>),
        (''/src/c.txt'', \<lparr>tamanho = 4, data = 10\<rparr>)]
   \<and> fst (listar_arquivos_sftp_recursivo2 (Some 8) 0 ''/src''
            (Some ([pasta_com ''antes'' ''p.txt''] @ pasta_ilegivel
                     # [pasta_com ''depois'' ''q.txt'', arquivo_c])))
     = [(''/src/antes/p.txt'', \<lparr>tamanho = 4, data = 10\<rparr>),
        (''/src/depois/q.txt'', \<lparr>tamanho = 4, data = 10\<rparr>),
        (''/src/c.txt'', \<lparr>tamanho = 4, data = 10\<rparr>)]"
proof -
  let ?sb = "pasta_com ''depois'' ''q.txt''"
  have h: "is_dir pasta_ilegivel \<and> data_mod pasta_ilegivel \<noteq> None \<and> conteudo pasta_ilegivel = None
       \<and> (\<forall>x \<in> set ([pasta_com ''antes'' ''p.txt''] @ [?sb, arquivo_c]). data_mod x \<noteq> None)
       \<and> ?sb \<in> set ([pasta_com ''antes'' ''p.txt''] @ [?sb, arquivo_c])
       \<and> data_mod ?sb = Some 10"
    by (simp add: pasta_ilegivel_def pasta_com_def arquivo_c_def)
  note t = falha_de_listagem_isolada [where e = pasta_ilegivel
      and ?es1.0 = "[pasta_com ''antes'' ''p.txt'']" and ?es2.0 = "[?sb, arquivo_c]"
      and sb = ?sb and d = 10 and f = "Some 10" and g = "Some 8" and n = 0 and dir = "''/src''",
      THEN conjunct2, THEN conjunct2, THEN conjunct2, THEN conjunct2, THEN conjunct2,
      THEN mp, OF h]
  have d1: "is_dir ?sb" by (simp add: pasta_com_def)
  have d2: "is_dir ?sb \<and> \<not> ((0::nat) = 0 \<and> (case Some (8::int) of None \<Rightarrow> False | Some m \<Rightarrow> 10 < m))"
    by (simp add: pasta_com_def)
  note k1 = t [THEN conjunct1, THEN mp, OF d1]
  note k2 = t [THEN conjunct2, THEN conjunct1, THEN mp, OF d2]
  have a: "is_dir pasta_ilegivel \<and> data_mod pasta_ilegivel = Some 10
             \<and> conteudo pasta_ilegivel = None"
    by (simp add: pasta_ilegivel_def)
  have e2: "fst (listar_arquivos_sftp_recursivo2 (Some 8) 0 ''/src''
            (Some ([pasta_com ''antes'' ''p.txt''] @ pasta_ilegivel # [?sb, arquivo_c])))
     = [(''/src/antes/p.txt'', \<lparr>tamanho = 4, data = 10\<rparr>),
        (''/src/depois/q.txt'', \<lparr>tamanho = 4, data = 10\<rparr>),
        (''/src/c.txt'', \<lparr>tamanho = 4, data = 10\<rparr>)]"
    using caminhada_com_falha [THEN conjunct2] by simp
  from a d1 k1 k2 caminhada_com_falha [THEN conjunct1] e2 show ?thesis by blast
qed

subsection \<open>Skipping old directories\<close>











section \<open>The calls of one entry and their failures\<close>

lemma alguma_levantou_append:
  "alguma_levantou env tr (xs @ ys)
     = (alguma_levantou env tr xs \<or> alguma_levantou env (tr @ xs) ys)"
  by (induction xs arbitrary: tr) auto

lemma falhou_append: "falhou env tr (tr @ xs) = alguma_levantou env tr xs"
  by (simp add: falhou_def)

lemma falhou_Cons: "falhou env tr (tr @ c # xs) = alguma_levantou env tr (c # xs)"
  by (simp add: falhou_def)

lemma remover_chamadas_exatas:
  "snd (remover env p tr) =
     tr @ Connect Destino #
       (if resposta env tr (Connect Destino) = Raised then []
        else Exists p #
          (if resposta env (tr @ [Connect Destino]) (Exists p) = Returned True
           then [Remove p] else []))"
  by (simp add: remover_def chamar_def split: outcome.splits bool.splits)

lemma remover_resultado:
  "fst (remover env p tr) = (\<not> falhou env tr (snd (remover env p tr)))"
  unfolding remover_chamadas_exatas falhou_Cons
  by (simp add: remover_def chamar_def split: outcome.splits bool.splits)

lemma baixar1_chamadas_exatas:
  "snd (baixar1 env c r tr) =
     tr @ LocalMkdirParent (TempPath r) #
       (if resposta env tr (LocalMkdirParent (TempPath r)) = Raised then []
        else [Get c (TempPath r)])"
  by (simp add: baixar1_def chamar_def split: outcome.splits)

lemma baixar1_resultado:
  "fst (baixar1 env c r tr) = (\<not> falhou env tr (snd (baixar1 env c r tr)))"
  unfolding baixar1_chamadas_exatas falhou_Cons
  by (simp add: baixar1_def chamar_def split: outcome.splits)

lemma baixar2_chamadas_exatas:
  "snd (baixar2 cfg env c r tr) =
     (if fst (baixar1 env c r tr) \<and> keep_extra_local_copy cfg then
        snd (baixar1 env c r tr) @ LocalMkdirParent (CopyPath r) #
          (if resposta env (snd (baixar1 env c r tr)) (LocalMkdirParent (CopyPath r)) = Raised
           then [] else [Get c (CopyPath r)])
      else snd (baixar1 env c r tr))"
  by (cases "baixar1 env c r tr")
     (simp add: baixar2_def chamar_def split: outcome.splits bool.splits)

lemma baixar2_resultado:
  "fst (baixar2 cfg env c r tr) = (\<not> falhou env tr (snd (baixar2 cfg env c r tr)))"
proof -
  obtain xs where xs: "snd (baixar1 env c r tr) = tr @ xs"
    using baixar1_chamadas_exatas [of env c r tr] by simp
  have f1: "fst (baixar1 env c r tr) = (\<not> alguma_levantou env tr xs)"
    using baixar1_resultado [of env c r tr] by (simp add: xs falhou_append)
  show ?thesis
  proof (cases "fst (baixar1 env c r tr) \<and> keep_extra_local_copy cfg")
    case False
    then have "baixar2 cfg env c r tr = baixar1 env c r tr"
      by (cases "baixar1 env c r tr") (auto simp: baixar2_def split: bool.splits)
    then show ?thesis using baixar1_resultado [of env c r tr] by simp
  next
    case True
    then have s: "snd (baixar2 cfg env c r tr) =
        tr @ xs @ LocalMkdirParent (CopyPath r) #
          (if resposta env (tr @ xs) (LocalMkdirParent (CopyPath r)) = Raised
           then [] else [Get c (CopyPath r)])"
      by (simp add: baixar2_chamadas_exatas xs)
    have f: "fst (baixar2 cfg env c r tr) =
        (resposta env (tr @ xs) (LocalMkdirParent (CopyPath r)) \<noteq> Raised
         \<and> resposta env (tr @ xs @ [LocalMkdirParent (CopyPath r)]) (Get c (CopyPath r)) \<noteq> Raised)"
      using True xs
      by (cases "baixar1 env c r tr")
         (auto simp: baixar2_def chamar_def split: outcome.splits)
    show ?thesis using True f1
      unfolding s f falhou_append
      by (simp add: alguma_levantou_append)
  qed
qed

lemma chamada_diretorio_simps:
  "chamada_diretorio (Exists a)" "chamada_diretorio (Mkdir a)"
  by (simp_all add: chamada_diretorio_def)

lemma criar_partes_chamadas:
  "\<exists>xs. snd (criar_partes env path parts tr) = tr @ xs
        \<and> fst (criar_partes env path parts tr) = (\<not> alguma_levantou env tr xs)
        \<and> list_all chamada_diretorio xs"
proof (induction parts arbitrary: path tr)
  case Nil
  show ?case by simp
next
  case (Cons part parts)
  let ?q = "path @ ''/'' @ part"
  obtain x1 where x1: "snd (criar_partes env ?q parts (tr @ [Exists ?q])) = (tr @ [Exists ?q]) @ x1"
    "fst (criar_partes env ?q parts (tr @ [Exists ?q])) = (\<not> alguma_levantou env (tr @ [Exists ?q]) x1)"
    "list_all chamada_diretorio x1"
    using Cons.IH by blast
  obtain x2 where x2: "snd (criar_partes env ?q parts (tr @ [Exists ?q, Mkdir ?q]))
                         = (tr @ [Exists ?q, Mkdir ?q]) @ x2"
    "fst (criar_partes env ?q parts (tr @ [Exists ?q, Mkdir ?q]))
       = (\<not> alguma_levantou env (tr @ [Exists ?q, Mkdir ?q]) x2)"
    "list_all chamada_diretorio x2"
    using Cons.IH by blast
  show ?case
  proof (cases "resposta env tr (Exists ?q)")
    case Raised
    then have eq: "criar_partes env path (part # parts) tr = (False, tr @ [Exists ?q])"
      by (simp add: chamar_def)
    show ?thesis unfolding eq using Raised
      by (intro exI [of _ "[Exists ?q]"]) (simp add: chamada_diretorio_simps)
  next
    case (Returned b)
    show ?thesis
    proof (cases b)
      case True
      with Returned have eq: "criar_partes env path (part # parts) tr
          = criar_partes env ?q parts (tr @ [Exists ?q])"
        by (simp add: chamar_def)
      show ?thesis unfolding eq using x1 Returned
        by (intro exI [of _ "Exists ?q # x1"]) (simp add: chamada_diretorio_simps)
    next
      case False
      show ?thesis
      proof (cases "resposta env (tr @ [Exists ?q]) (Mkdir ?q)")
        case Raised
        with Returned False
        have eq: "criar_partes env path (part # parts) tr = (False, tr @ [Exists ?q, Mkdir ?q])"
          by (simp add: chamar_def)
        show ?thesis unfolding eq using Raised Returned
          by (intro exI [of _ "[Exists ?q, Mkdir ?q]"]) (simp add: chamada_diretorio_simps)
      next
        case r2: (Returned b2)
        with Returned False have eq: "criar_partes env path (part # parts) tr
            = criar_partes env ?q parts (tr @ [Exists ?q, Mkdir ?q])"
          by (simp add: chamar_def)
        show ?thesis unfolding eq using x2 Returned r2
          by (intro exI [of _ "Exists ?q # Mkdir ?q # x2"]) (simp add: chamada_diretorio_simps)
      qed
    qed
  qed
qed

lemma ensure_remote_dirs_chamadas:
  "\<exists>xs. snd (ensure_remote_dirs env dir tr) = tr @ Exists (py_replace ''//'' ''/'' dir) # xs
        \<and> fst (ensure_remote_dirs env dir tr)
            = (\<not> alguma_levantou env tr (Exists (py_replace ''//'' ''/'' dir) # xs))
        \<and> list_all chamada_diretorio xs"
proof -
  let ?d = "py_replace ''//'' ''/'' dir"
  obtain xs where xs:
    "snd (criar_partes env [] (split_barra (strip_barra ?d)) (tr @ [Exists ?d]))
       = (tr @ [Exists ?d]) @ xs"
    "fst (criar_partes env [] (split_barra (strip_barra ?d)) (tr @ [Exists ?d]))
       = (\<not> alguma_levantou env (tr @ [Exists ?d]) xs)"
    "list_all chamada_diretorio xs"
    using criar_partes_chamadas by blast
  show ?thesis
  proof (cases "resposta env tr (Exists ?d)")
    case Raised
    then show ?thesis
      by (intro exI [of _ "[]"]) (simp add: ensure_remote_dirs_def chamar_def)
  next
    case (Returned b)
    show ?thesis
    proof (cases b)
      case True
      with Returned show ?thesis
        by (intro exI [of _ "[]"]) (simp add: ensure_remote_dirs_def chamar_def)
    next
      case False
      with Returned have "ensure_remote_dirs env dir tr
          = criar_partes env [] (split_barra (strip_barra ?d)) (tr @ [Exists ?d])"
        by (simp add: ensure_remote_dirs_def chamar_def)
      then show ?thesis using xs Returned
        by (intro exI [of _ xs]) simp
    qed
  qed
qed

lemma ensure_remote_dirs_resultado:
  "fst (ensure_remote_dirs env dir tr) = (\<not> falhou env tr (snd (ensure_remote_dirs env dir tr)))"
proof -
  obtain xs where "snd (ensure_remote_dirs env dir tr) = tr @ Exists (py_replace ''//'' ''/'' dir) # xs"
    "fst (ensure_remote_dirs env dir tr)
       = (\<not> alguma_levantou env tr (Exists (py_replace ''//'' ''/'' dir) # xs))"
    using ensure_remote_dirs_chamadas by blast
  then show ?thesis by (simp only: falhou_Cons)
qed

lemma enviar_chamadas_exatas:
  "snd (enviar env r p tr) =
     (if resposta env tr (Connect Destino) = Raised then tr @ [Connect Destino]
      else if fst (ensure_remote_dirs env (dirname p) (tr @ [Connect Destino]))
      then snd (ensure_remote_dirs env (dirname p) (tr @ [Connect Destino]))
             @ [Put (TempPath r) p]
      else snd (ensure_remote_dirs env (dirname p) (tr @ [Connect Destino])))"
  by (cases "ensure_remote_dirs env (dirname p) (tr @ [Connect Destino])")
     (simp add: enviar_def chamar_def split: outcome.splits bool.splits)

lemma enviar_resultado:
  "fst (enviar env r p tr) = (\<not> falhou env tr (snd (enviar env r p tr)))"
proof (cases "resposta env tr (Connect Destino) = Raised")
  case True
  then have "enviar env r p tr = (False, tr @ [Connect Destino])"
    by (simp add: enviar_def chamar_def)
  then show ?thesis using True falhou_Cons [of env tr "Connect Destino" "[]"] by simp
next
  case False
  let ?t = "tr @ [Connect Destino]"
  let ?d = "py_replace ''//'' ''/'' (dirname p)"
  obtain xs where xs: "snd (ensure_remote_dirs env (dirname p) ?t) = ?t @ Exists ?d # xs"
    "fst (ensure_remote_dirs env (dirname p) ?t) = (\<not> alguma_levantou env ?t (Exists ?d # xs))"
    using ensure_remote_dirs_chamadas by blast
  show ?thesis
  proof (cases "fst (ensure_remote_dirs env (dirname p) ?t)")
    case nok: False
    then have e: "enviar env r p tr = (False, ?t @ Exists ?d # xs)"
      using False xs(1)
      by (cases "ensure_remote_dirs env (dirname p) ?t")
         (auto simp: enviar_def chamar_def split: outcome.splits)
    have "falhou env tr (tr @ Connect Destino # Exists ?d # xs)"
      unfolding falhou_Cons using nok xs(2) False by simp
    then show ?thesis using e by simp
  next
    case ok: True
    let ?u = "?t @ Exists ?d # xs"
    have e: "enviar env r p tr = (resposta env ?u (Put (TempPath r) p) \<noteq> Raised,
                                  ?u @ [Put (TempPath r) p])"
      using False xs(1) ok
      by (cases "ensure_remote_dirs env (dirname p) ?t")
         (auto simp: enviar_def chamar_def split: outcome.splits)
    have "falhou env tr (tr @ (Connect Destino # Exists ?d # xs) @ [Put (TempPath r) p])
            = (resposta env ?u (Put (TempPath r) p) = Raised)"
      unfolding falhou_append alguma_levantou_append
      using ok xs(2) False by simp
    then show ?thesis using e by simp
  qed
qed

lemma passo_exato:
  assumes "d = decidir dest chave dados" and "R = remover env p tr"
    and "B = b (if d = Replace then snd R else tr)" and "E = enviar env r p' (snd B)"
    and "s = (case decidir_e_remover env dest chave p dados (st, tr) of
                (st1, False) \<Rightarrow> st1
              | (st1, True) \<Rightarrow> transferir b env r p' st1)"
  shows "novos (fst s) = novos st + (if d = Create then 1 else 0)"
    and "iguais (fst s) = iguais st + (if d = Skip then 1 else 0)"
    and "reenviados (fst s) = reenviados st + (if d = Replace then 1 else 0)"
    and "erros_remocao (fst s) = erros_remocao st + (if d = Replace \<and> \<not> fst R then 1 else 0)"
    and "erros_download (fst s) = erros_download st + (if d \<noteq> Skip \<and> \<not> fst B then 1 else 0)"
    and "erros_upload (fst s)
           = erros_upload st + (if d \<noteq> Skip \<and> fst B \<and> \<not> fst E then 1 else 0)"
    and "snd s = (if d = Skip then tr else if fst B then snd E else snd B)"
proof -
  obtain rok rt where R': "remover env p tr = (rok, rt)" by (cases "remover env p tr")
  have all: "novos (fst s) = novos st + (if d = Create then 1 else 0)
    \<and> iguais (fst s) = iguais st + (if d = Skip then 1 else 0)
    \<and> reenviados (fst s) = reenviados st + (if d = Replace then 1 else 0)
    \<and> erros_remocao (fst s) = erros_remocao st + (if d = Replace \<and> \<not> fst R then 1 else 0)
    \<and> erros_download (fst s) = erros_download st + (if d \<noteq> Skip \<and> \<not> fst B then 1 else 0)
    \<and> erros_upload (fst s)
           = erros_upload st + (if d \<noteq> Skip \<and> fst B \<and> \<not> fst E then 1 else 0)
    \<and> snd s = (if d = Skip then tr else if fst B then snd E else snd B)"
  proof (cases d)
    case Skip
    then have "s = (st\<lparr>iguais := iguais st + 1\<rparr>, tr)"
      using assms(1) unfolding assms(5) by (simp add: decidir_e_remover_def)
    then show ?thesis using Skip by simp
  next
    case Create
    then have B1: "B = b tr" using assms(3) by simp
    obtain bok bt where B': "b tr = (bok, bt)" by (cases "b tr")
    obtain eok et where E': "enviar env r p' bt = (eok, et)" by (cases "enviar env r p' bt")
    have "s = transferir b env r p' (st\<lparr>novos := novos st + 1\<rparr>, tr)"
      using Create assms(1) unfolding assms(5) by (simp add: decidir_e_remover_def)
    then have "s = (if bok then (if eok then st\<lparr>novos := novos st + 1\<rparr>
                                 else st\<lparr>novos := novos st + 1,
                                         erros_upload := erros_upload st + 1\<rparr>, et)
                    else (st\<lparr>novos := novos st + 1,
                             erros_download := erros_download st + 1\<rparr>, bt))"
      by (simp add: transferir_def B' E')
    then show ?thesis using Create
      by (cases bok; cases eok; simp add: B1 B' assms(4) E')
  next
    case Replace
    then have B1: "B = b rt" using assms(2,3) by (simp add: R')
    obtain bok bt where B': "b rt = (bok, bt)" by (cases "b rt")
    obtain eok et where E': "enviar env r p' bt = (eok, et)" by (cases "enviar env r p' bt")
    let ?x = "if rok then st\<lparr>reenviados := reenviados st + 1\<rparr>
              else st\<lparr>erros_remocao := erros_remocao st + 1,
                      reenviados := reenviados st + 1\<rparr>"
    have "s = transferir b env r p' (?x, rt)"
      using Replace assms(1) unfolding assms(5)
      by (simp add: decidir_e_remover_def R' split: bool.splits)
    then have "s = (if bok then (if eok then ?x else ?x\<lparr>erros_upload := erros_upload ?x + 1\<rparr>, et)
                    else (?x\<lparr>erros_download := erros_download ?x + 1\<rparr>, bt))"
      by (simp add: transferir_def B' E')
    then show ?thesis using Replace
      by (cases rok; cases bok; cases eok; simp add: B1 B' assms(2,4) R' E')
  qed
  from all show "novos (fst s) = novos st + (if d = Create then 1 else 0)"
    and "iguais (fst s) = iguais st + (if d = Skip then 1 else 0)"
    and "reenviados (fst s) = reenviados st + (if d = Replace then 1 else 0)"
    and "erros_remocao (fst s) = erros_remocao st + (if d = Replace \<and> \<not> fst R then 1 else 0)"
    and "erros_download (fst s) = erros_download st + (if d \<noteq> Skip \<and> \<not> fst B then 1 else 0)"
    and "erros_upload (fst s)
           = erros_upload st + (if d \<noteq> Skip \<and> fst B \<and> \<not> fst E then 1 else 0)"
    and "snd s = (if d = Skip then tr else if fst B then snd E else snd B)"
    by blast+
qed

lemma processar1_exato:
  assumes "d1 = decidir dest (rel_path_origem cfg env c) dados"
    and "tR1 = snd (remover env (destino_path1 cfg env c) tr)"
    and "t01 = (if d1 = Replace then tR1 else tr)"
    and "tB1 = snd (baixar1 env c (rel_path_origem cfg env c) t01)"
    and "tE1 = snd (enviar env (rel_path_origem cfg env c) (destino_path1 cfg env c) tB1)"
    and "s1 = fst (processar1 cfg env dest (c, dados) (st, tr))"
  shows "novos s1 = novos st + (if d1 = Create then 1 else 0)"
    and "iguais s1 = iguais st + (if d1 = Skip then 1 else 0)"
    and "reenviados s1 = reenviados st + (if d1 = Replace then 1 else 0)"
    and "erros_remocao s1 = erros_remocao st + (if d1 = Replace \<and> falhou env tr tR1 then 1 else 0)"
    and "erros_download s1
           = erros_download st + (if d1 \<noteq> Skip \<and> falhou env t01 tB1 then 1 else 0)"
    and "erros_upload s1
           = erros_upload st
             + (if d1 \<noteq> Skip \<and> \<not> falhou env t01 tB1 \<and> falhou env tB1 tE1 then 1 else 0)"
    and "snd (processar1 cfg env dest (c, dados) (st, tr))
           = (if d1 = Skip then tr else if falhou env t01 tB1 then tB1 else tE1)"
proof -
  let ?R = "remover env (destino_path1 cfg env c) tr"
  let ?B = "baixar1 env c (rel_path_origem cfg env c) (if d1 = Replace then snd ?R else tr)"
  let ?E = "enviar env (rel_path_origem cfg env c) (destino_path1 cfg env c) (snd ?B)"
  have p: "processar1 cfg env dest (c, dados) (st, tr)
      = (case decidir_e_remover env dest (rel_path_origem cfg env c) (destino_path1 cfg env c)
                dados (st, tr) of
           (st1, False) \<Rightarrow> st1
         | (st1, True) \<Rightarrow>
             transferir (baixar1 env c (rel_path_origem cfg env c)) env
               (rel_path_origem cfg env c) (destino_path1 cfg env c) st1)"
    unfolding processar1_def fst_conv snd_conv ..
  note ex = passo_exato [OF assms(1) refl refl refl p]
  have fR: "fst ?R = (\<not> falhou env tr tR1)"
    unfolding assms(2) by (rule remover_resultado)
  have fB: "fst ?B = (\<not> falhou env t01 tB1)"
    unfolding assms(4) assms(3) assms(2) by (rule baixar1_resultado)
  have fE: "fst ?E = (\<not> falhou env tB1 tE1)"
    unfolding assms(5) assms(4) assms(3) assms(2) by (rule enviar_resultado)
  have sB: "snd ?B = tB1" unfolding assms(4) assms(3) assms(2) ..
  have sE: "snd ?E = tE1" unfolding assms(5) assms(4) assms(3) assms(2) ..
  show "novos s1 = novos st + (if d1 = Create then 1 else 0)"
    unfolding assms(6) by (rule ex(1))
  show "iguais s1 = iguais st + (if d1 = Skip then 1 else 0)"
    unfolding assms(6) by (rule ex(2))
  show "reenviados s1 = reenviados st + (if d1 = Replace then 1 else 0)"
    unfolding assms(6) by (rule ex(3))
  show "erros_remocao s1 = erros_remocao st + (if d1 = Replace \<and> falhou env tr tR1 then 1 else 0)"
    unfolding assms(6) using ex(4) fR by simp
  show "erros_download s1
           = erros_download st + (if d1 \<noteq> Skip \<and> falhou env t01 tB1 then 1 else 0)"
    unfolding assms(6) using ex(5) fB by simp
  show "erros_upload s1
           = erros_upload st
             + (if d1 \<noteq> Skip \<and> \<not> falhou env t01 tB1 \<and> falhou env tB1 tE1 then 1 else 0)"
    unfolding assms(6) using ex(6) fB fE by simp
  show "snd (processar1 cfg env dest (c, dados) (st, tr))
           = (if d1 = Skip then tr else if falhou env t01 tB1 then tB1 else tE1)"
    using ex(7) fB sB sE by simp
qed

lemma processar2_exato:
  assumes "d2 = decidir dest (caminho_dest2 cfg env c) dados"
    and "tR2 = snd (remover env (caminho_dest2 cfg env c) tr)"
    and "t02 = (if d2 = Replace then tR2 else tr)"
    and "tB2 = snd (baixar2 cfg env c (rel_path_origem cfg env c) t02)"
    and "tE2 = snd (enviar env (rel_path_origem cfg env c) (caminho_dest2 cfg env c) tB2)"
    and "s2 = fst (processar2 cfg env dest (c, dados) (st, tr))"
  shows "novos s2 = novos st + (if d2 = Create then 1 else 0)"
    and "iguais s2 = iguais st + (if d2 = Skip then 1 else 0)"
    and "reenviados s2 = reenviados st + (if d2 = Replace then 1 else 0)"
    and "erros_remocao s2 = erros_remocao st + (if d2 = Replace \<and> falhou env tr tR2 then 1 else 0)"
    and "erros_download s2
           = erros_download st + (if d2 \<noteq> Skip \<and> falhou env t02 tB2 then 1 else 0)"
    and "erros_upload s2
           = erros_upload st
             + (if d2 \<noteq> Skip \<and> \<not> falhou env t02 tB2 \<and> falhou env tB2 tE2 then 1 else 0)"
    and "snd (processar2 cfg env dest (c, dados) (st, tr))
           = (if d2 = Skip then tr else if falhou env t02 tB2 then tB2 else tE2)"
proof -
  let ?R = "remover env (caminho_dest2 cfg env c) tr"
  let ?B = "baixar2 cfg env c (rel_path_origem cfg env c) (if d2 = Replace then snd ?R else tr)"
  let ?E = "enviar env (rel_path_origem cfg env c) (caminho_dest2 cfg env c) (snd ?B)"
  have p: "processar2 cfg env dest (c, dados) (st, tr)
      = (case decidir_e_remover env dest (caminho_dest2 cfg env c) (caminho_dest2 cfg env c)
                dados (st, tr) of
           (st1, False) \<Rightarrow> st1
         | (st1, True) \<Rightarrow>
             transferir (baixar2 cfg env c (rel_path_origem cfg env c)) env
               (rel_path_origem cfg env c) (caminho_dest2 cfg env c) st1)"
    unfolding processar2_def fst_conv snd_conv ..
  note ex = passo_exato [OF assms(1) refl refl refl p]
  have fR: "fst ?R = (\<not> falhou env tr tR2)"
    unfolding assms(2) by (rule remover_resultado)
  have fB: "fst ?B = (\<not> falhou env t02 tB2)"
    unfolding assms(4) assms(3) assms(2) by (rule baixar2_resultado)
  have fE: "fst ?E = (\<not> falhou env tB2 tE2)"
    unfolding assms(5) assms(4) assms(3) assms(2) by (rule enviar_resultado)
  have sB: "snd ?B = tB2" unfolding assms(4) assms(3) assms(2) ..
  have sE: "snd ?E = tE2" unfolding assms(5) assms(4) assms(3) assms(2) ..
  show "novos s2 = novos st + (if d2 = Create then 1 else 0)"
    unfolding assms(6) by (rule ex(1))
  show "iguais s2 = iguais st + (if d2 = Skip then 1 else 0)"
    unfolding assms(6) by (rule ex(2))
  show "reenviados s2 = reenviados st + (if d2 = Replace then 1 else 0)"
    unfolding assms(6) by (rule ex(3))
  show "erros_remocao s2 = erros_remocao st + (if d2 = Replace \<and> falhou env tr tR2 then 1 else 0)"
    unfolding assms(6) using ex(4) fR by simp
  show "erros_download s2
           = erros_download st + (if d2 \<noteq> Skip \<and> falhou env t02 tB2 then 1 else 0)"
    unfolding assms(6) using ex(5) fB by simp
  show "erros_upload s2
           = erros_upload st
             + (if d2 \<noteq> Skip \<and> \<not> falhou env t02 tB2 \<and> falhou env tB2 tE2 then 1 else 0)"
    unfolding assms(6) using ex(6) fB fE by simp
  show "snd (processar2 cfg env dest (c, dados) (st, tr))
           = (if d2 = Skip then tr else if falhou env t02 tB2 then tB2 else tE2)"
    using ex(7) fB sB sE by simp
qed

lemma chamadas_dos_blocos:
  "snd (remover env pq tq) =
       tq @ Connect Destino #
         (if resposta env tq (Connect Destino) = Raised then []
          else Exists pq #
            (if resposta env (tq @ [Connect Destino]) (Exists pq) = Returned True
             then [Remove pq] else []))
   \<and> snd (baixar1 env cq rq tq) =
       tq @ LocalMkdirParent (TempPath rq) #
         (if resposta env tq (LocalMkdirParent (TempPath rq)) = Raised then []
          else [Get cq (TempPath rq)])
   \<and> snd (baixar2 cfg env cq rq tq) =
       (if \<not> falhou env tq (snd (baixar1 env cq rq tq)) \<and> keep_extra_local_copy cfg then
          snd (baixar1 env cq rq tq) @ LocalMkdirParent (CopyPath rq) #
            (if resposta env (snd (baixar1 env cq rq tq)) (LocalMkdirParent (CopyPath rq)) = Raised
             then [] else [Get cq (CopyPath rq)])
        else snd (baixar1 env cq rq tq))
   \<and> snd (enviar env rq pq tq) =
       (if resposta env tq (Connect Destino) = Raised then tq @ [Connect Destino]
        else if falhou env (tq @ [Connect Destino])
                  (snd (ensure_remote_dirs env (dirname pq) (tq @ [Connect Destino])))
        then snd (ensure_remote_dirs env (dirname pq) (tq @ [Connect Destino]))
        else snd (ensure_remote_dirs env (dirname pq) (tq @ [Connect Destino]))
               @ [Put (TempPath rq) pq])
   \<and> (\<exists>xs. snd (ensure_remote_dirs env dq tq) = tq @ Exists (py_replace ''//'' ''/'' dq) # xs
             \<and> list_all chamada_diretorio xs)"
proof -
  have b1: "fst (baixar1 env cq rq tq) = (\<not> falhou env tq (snd (baixar1 env cq rq tq)))"
    by (rule baixar1_resultado)
  have e: "fst (ensure_remote_dirs env (dirname pq) (tq @ [Connect Destino]))
             = (\<not> falhou env (tq @ [Connect Destino])
                    (snd (ensure_remote_dirs env (dirname pq) (tq @ [Connect Destino]))))"
    by (rule ensure_remote_dirs_resultado)
  have d: "\<exists>xs. snd (ensure_remote_dirs env dq tq) = tq @ Exists (py_replace ''//'' ''/'' dq) # xs
             \<and> list_all chamada_diretorio xs"
    using ensure_remote_dirs_chamadas [of env dq tq] by blast
  show ?thesis
    using remover_chamadas_exatas [of env pq tq] baixar1_chamadas_exatas [of env cq rq tq]
      baixar2_chamadas_exatas [of cfg env cq rq tq] enviar_chamadas_exatas [of env rq pq tq] d
    unfolding b1 e by (intro conjI) simp_all
qed

lemma entradas_com_falha:
  "processar1 cfg_a (env_de falha_remove) destino_a
      (''/src/a.txt'', \<lparr>tamanho = 10, data = 10\<rparr>) (status_inicial, [])
     = (\<lparr>novos = 0, iguais = 0, reenviados = 1, erros_download = 0, erros_upload = 0,
        erros_remocao = 1\<rparr>,
        [Connect Destino, Exists ''/dst/uploads/a.txt'', Remove ''/dst/uploads/a.txt'',
        LocalMkdirParent (TempPath ''a.txt''), Get ''/src/a.txt'' (TempPath ''a.txt''),
        Connect Destino, Exists ''/dst/uploads'',
        Put (TempPath ''a.txt'') ''/dst/uploads/a.txt''])
   \<and> processar2 cfg_a (env_de falha_remove) destino_a
      (''/src/a.txt'', \<lparr>tamanho = 10, data = 10\<rparr>) (status_inicial, [])
     = (\<lparr>novos = 0, iguais = 0, reenviados = 1, erros_download = 0, erros_upload = 0,
        erros_remocao = 1\<rparr>,
        [Connect Destino, Exists ''/dst/a.txt'', Remove ''/dst/a.txt'',
        LocalMkdirParent (TempPath ''a.txt''), Get ''/src/a.txt'' (TempPath ''a.txt''),
        LocalMkdirParent (CopyPath ''a.txt''), Get ''/src/a.txt'' (CopyPath ''a.txt''),
        Connect Destino, Exists ''/dst'', Put (TempPath ''a.txt'') ''/dst/a.txt''])
   \<and> processar1 cfg_a (env_de falha_get) destino_a
      (''/src/a.txt'', \<lparr>tamanho = 10, data = 10\<rparr>) (status_inicial, [])
     = (\<lparr>novos = 0, iguais = 0, reenviados = 1, erros_download = 1, erros_upload = 0,
        erros_remocao = 0\<rparr>,
        [Connect Destino, Exists ''/dst/uploads/a.txt'', Remove ''/dst/uploads/a.txt'',
        LocalMkdirParent (TempPath ''a.txt''), Get ''/src/a.txt'' (TempPath ''a.txt'')])
   \<and> processar2 cfg_a (env_de falha_get) destino_a
      (''/src/a.txt'', \<lparr>tamanho = 10, data = 10\<rparr>) (status_inicial, [])
     = (\<lparr>novos = 0, iguais = 0, reenviados = 1, erros_download = 1, erros_upload = 0,
        erros_remocao = 0\<rparr>,
        [Connect Destino, Exists ''/dst/a.txt'', Remove ''/dst/a.txt'',
        LocalMkdirParent (TempPath ''a.txt''), Get ''/src/a.txt'' (TempPath ''a.txt'')])
   \<and> processar1 cfg_a (env_de falha_put) destino_a
      (''/src/a.txt'', \<lparr>tamanho = 10, data = 10\<rparr>) (status_inicial, [])
     = (\<lparr>novos = 0, iguais = 0, reenviados = 1, erros_download = 0, erros_upload = 1,
        erros_remocao = 0\<rparr>,
        [Connect Destino, Exists ''/dst/uploads/a.txt'', Remove ''/dst/uploads/a.txt'',
        LocalMkdirParent (TempPath ''a.txt''), Get ''/src/a.txt'' (TempPath ''a.txt''),
        Connect Destino, Exists ''/dst/uploads'',
        Put (TempPath ''a.txt'') ''/dst/uploads/a.txt''])
   \<and> processar2 cfg_a (env_de falha_put) destino_a
      (''/src/a.txt'', \<lparr>tamanho = 10, data = 10\<rparr>) (status_inicial, [])
     = (\<lparr>novos = 0, iguais = 0, reenviados = 1, erros_download = 0, erros_upload = 1,
        erros_remocao = 0\<rparr>,
        [Connect Destino, Exists ''/dst/a.txt'', Remove ''/dst/a.txt'',
        LocalMkdirParent (TempPath ''a.txt''), Get ''/src/a.txt'' (TempPath ''a.txt''),
        LocalMkdirParent (CopyPath ''a.txt''), Get ''/src/a.txt'' (CopyPath ''a.txt''),
        Connect Destino, Exists ''/dst'', Put (TempPath ''a.txt'') ''/dst/a.txt''])"
  by code_simp

lemma hipoteses_com_falha:
  "decidir destino_a (rel_path_origem cfg_a (env_de falha_remove) ''/src/a.txt'') \<lparr>tamanho = 10, data = 10\<rparr> = Replace
   \<and> decidir destino_a (caminho_dest2 cfg_a (env_de falha_remove) ''/src/a.txt'') \<lparr>tamanho = 10, data = 10\<rparr> = Replace
   \<and> decidir destino_a (rel_path_origem cfg_a (env_de falha_get) ''/src/a.txt'') \<lparr>tamanho = 10, data = 10\<rparr> = Replace
   \<and> decidir destino_a (caminho_dest2 cfg_a (env_de falha_get) ''/src/a.txt'') \<lparr>tamanho = 10, data = 10\<rparr> = Replace
   \<and> decidir destino_a (rel_path_origem cfg_a (env_de falha_put) ''/src/a.txt'') \<lparr>tamanho = 10, data = 10\<rparr> = Replace
   \<and> decidir destino_a (caminho_dest2 cfg_a (env_de falha_put) ''/src/a.txt'') \<lparr>tamanho = 10, data = 10\<rparr> = Replace
   \<and> falhou (env_de falha_remove) [] (snd (remover (env_de falha_remove) (destino_path1 cfg_a (env_de falha_remove) ''/src/a.txt'') []))
   \<and> falhou (env_de falha_remove) [] (snd (remover (env_de falha_remove) (caminho_dest2 cfg_a (env_de falha_remove) ''/src/a.txt'') []))
   \<and> falhou (env_de falha_get) (snd (remover (env_de falha_get) (destino_path1 cfg_a (env_de falha_get) ''/src/a.txt'') []))
       (snd (baixar1 (env_de falha_get) ''/src/a.txt'' (rel_path_origem cfg_a (env_de falha_get) ''/src/a.txt'')
            (snd (remover (env_de falha_get) (destino_path1 cfg_a (env_de falha_get) ''/src/a.txt'') []))))
   \<and> falhou (env_de falha_get) (snd (remover (env_de falha_get) (caminho_dest2 cfg_a (env_de falha_get) ''/src/a.txt'') []))
       (snd (baixar2 cfg_a (env_de falha_get) ''/src/a.txt'' (rel_path_origem cfg_a (env_de falha_get) ''/src/a.txt'')
            (snd (remover (env_de falha_get) (caminho_dest2 cfg_a (env_de falha_get) ''/src/a.txt'') []))))
   \<and> \<not> falhou (env_de falha_put) (snd (remover (env_de falha_put) (destino_path1 cfg_a (env_de falha_put) ''/src/a.txt'') []))
       (snd (baixar1 (env_de falha_put) ''/src/a.txt'' (rel_path_origem cfg_a (env_de falha_put) ''/src/a.txt'')
            (snd (remover (env_de falha_put) (destino_path1 cfg_a (env_de falha_put) ''/src/a.txt'') []))))
   \<and> falhou (env_de falha_put) (snd (baixar1 (env_de falha_put) ''/src/a.txt'' (rel_path_origem cfg_a (env_de falha_put) ''/src/a.txt'')
            (snd (remover (env_de falha_put) (destino_path1 cfg_a (env_de falha_put) ''/src/a.txt'') []))))
       (snd (enviar (env_de falha_put) (rel_path_origem cfg_a (env_de falha_put) ''/src/a.txt'') (destino_path1 cfg_a (env_de falha_put) ''/src/a.txt'')
            (snd (baixar1 (env_de falha_put) ''/src/a.txt'' (rel_path_origem cfg_a (env_de falha_put) ''/src/a.txt'')
            (snd (remover (env_de falha_put) (destino_path1 cfg_a (env_de falha_put) ''/src/a.txt'') []))))))
   \<and> \<not> falhou (env_de falha_put) (snd (remover (env_de falha_put) (caminho_dest2 cfg_a (env_de falha_put) ''/src/a.txt'') []))
       (snd (baixar2 cfg_a (env_de falha_put) ''/src/a.txt'' (rel_path_origem cfg_a (env_de falha_put) ''/src/a.txt'')
            (snd (remover (env_de falha_put) (caminho_dest2 cfg_a (env_de falha_put) ''/src/a.txt'') []))))
   \<and> falhou (env_de falha_put) (snd (baixar2 cfg_a (env_de falha_put) ''/src/a.txt'' (rel_path_origem cfg_a (env_de falha_put) ''/src/a.txt'')
            (snd (remover (env_de falha_put) (caminho_dest2 cfg_a (env_de falha_put) ''/src/a.txt'') []))))
       (snd (enviar (env_de falha_put) (rel_path_origem cfg_a (env_de falha_put) ''/src/a.txt'') (caminho_dest2 cfg_a (env_de falha_put) ''/src/a.txt'')
            (snd (baixar2 cfg_a (env_de falha_put) ''/src/a.txt'' (rel_path_origem cfg_a (env_de falha_put) ''/src/a.txt'')
            (snd (remover (env_de falha_put) (caminho_dest2 cfg_a (env_de falha_put) ''/src/a.txt'') []))))))"
  by code_simp

text \<open>C4, as amended. For an entry with decision \<open>d\<close>, with the histories of calls
  after its removal block (\<open>tR\<close>), before and after its download block (\<open>t0\<close>,
  \<open>tB\<close>) and after its upload block (\<open>tE\<close>): the entry adds one to exactly one of
  \<open>novos\<close>, \<open>iguais\<close> and \<open>reenviados\<close>, the one of its decision; it adds one to
  \<open>erros_remocao\<close> exactly when the decision is Replace and a call of the removal block
  raised, one to \<open>erros_download\<close> exactly when it is not skipped and a call of the
  download block raised, and one to \<open>erros_upload\<close> exactly when it is not skipped, no
  call of the download block raised and a call of the upload block raised. The last five
  conjuncts say which calls each block makes.\<close>

theorem contadores_por_entrada:
  assumes "d1 = decidir dest (rel_path_origem cfg env c) dados"
    and "tR1 = snd (remover env (destino_path1 cfg env c) tr)"
    and "t01 = (if d1 = Replace then tR1 else tr)"
    and "tB1 = snd (baixar1 env c (rel_path_origem cfg env c) t01)"
    and "tE1 = snd (enviar env (rel_path_origem cfg env c) (destino_path1 cfg env c) tB1)"
    and "s1 = fst (processar1 cfg env dest (c, dados) (st, tr))"
    and "d2 = decidir dest (caminho_dest2 cfg env c) dados"
    and "tR2 = snd (remover env (caminho_dest2 cfg env c) tr)"
    and "t02 = (if d2 = Replace then tR2 else tr)"
    and "tB2 = snd (baixar2 cfg env c (rel_path_origem cfg env c) t02)"
    and "tE2 = snd (enviar env (rel_path_origem cfg env c) (caminho_dest2 cfg env c) tB2)"
    and "s2 = fst (processar2 cfg env dest (c, dados) (st, tr))"
  shows "novos s1 = novos st + (if d1 = Create then 1 else 0)
   \<and> iguais s1 = iguais st + (if d1 = Skip then 1 else 0)
   \<and> reenviados s1 = reenviados st + (if d1 = Replace then 1 else 0)
   \<and> erros_remocao s1
       = erros_remocao st + (if d1 = Replace \<and> falhou env tr tR1 then 1 else 0)
   \<and> erros_download s1
       = erros_download st + (if d1 \<noteq> Skip \<and> falhou env t01 tB1 then 1 else 0)
   \<and> erros_upload s1
       = erros_upload st
         + (if d1 \<noteq> Skip \<and> \<not> falhou env t01 tB1 \<and> falhou env tB1 tE1
            then 1 else 0)
   \<and> novos s2 = novos st + (if d2 = Create then 1 else 0)
   \<and> iguais s2 = iguais st + (if d2 = Skip then 1 else 0)
   \<and> reenviados s2 = reenviados st + (if d2 = Replace then 1 else 0)
   \<and> erros_remocao s2
       = erros_remocao st + (if d2 = Replace \<and> falhou env tr tR2 then 1 else 0)
   \<and> erros_download s2
       = erros_download st + (if d2 \<noteq> Skip \<and> falhou env t02 tB2 then 1 else 0)
   \<and> erros_upload s2
       = erros_upload st
         + (if d2 \<noteq> Skip \<and> \<not> falhou env t02 tB2 \<and> falhou env tB2 tE2
            then 1 else 0)
   \<and> snd (remover env pq tq) =
       tq @ Connect Destino #
         (if resposta env tq (Connect Destino) = Raised then []
          else Exists pq #
            (if resposta env (tq @ [Connect Destino]) (Exists pq) = Returned True
             then [Remove pq] else []))
   \<and> snd (baixar1 env cq rq tq) =
       tq @ LocalMkdirParent (TempPath rq) #
         (if resposta env tq (LocalMkdirParent (TempPath rq)) = Raised then []
          else [Get cq (TempPath rq)])
   \<and> snd (baixar2 cfg env cq rq tq) =
       (if \<not> falhou env tq (snd (baixar1 env cq rq tq)) \<and> keep_extra_local_copy cfg then
          snd (baixar1 env cq rq tq) @ LocalMkdirParent (CopyPath rq) #
            (if resposta env (snd (baixar1 env cq rq tq)) (LocalMkdirParent (CopyPath rq)) = Raised
             then [] else [Get cq (CopyPath rq)])
        else snd (baixar1 env cq rq tq))
   \<and> snd (enviar env rq pq tq) =
       (if resposta env tq (Connect Destino) = Raised then tq @ [Connect Destino]
        else if falhou env (tq @ [Connect Destino])
                  (snd (ensure_remote_dirs env (dirname pq) (tq @ [Connect Destino])))
        then snd (ensure_remote_dirs env (dirname pq) (tq @ [Connect Destino]))
        else snd (ensure_remote_dirs env (dirname pq) (tq @ [Connect Destino]))
               @ [Put (TempPath rq) pq])
   \<and> (\<exists>xs. snd (ensure_remote_dirs env dq tq) = tq @ Exists (py_replace ''//'' ''/'' dq) # xs
             \<and> list_all chamada_diretorio xs)"
  using processar1_exato(1-6) [OF assms(1-6)] processar2_exato(1-6) [OF assms(7-12)]
    chamadas_dos_blocos [where env = env and pq = pq and tq = tq and cq = cq and rq = rq
      and cfg = cfg and dq = dq]
  by blast

theorem contadores_por_entrada_witness:
  "decidir destino_a (rel_path_origem cfg_a (env_de falha_put) ''/src/a.txt'') \<lparr>tamanho = 10, data = 10\<rparr> = Replace
   \<and> falhou (env_de falha_put) (snd (baixar1 (env_de falha_put) ''/src/a.txt'' (rel_path_origem cfg_a (env_de falha_put) ''/src/a.txt'')
            (snd (remover (env_de falha_put) (destino_path1 cfg_a (env_de falha_put) ''/src/a.txt'') []))))
       (snd (enviar (env_de falha_put) (rel_path_origem cfg_a (env_de falha_put) ''/src/a.txt'') (destino_path1 cfg_a (env_de falha_put) ''/src/a.txt'')
            (snd (baixar1 (env_de falha_put) ''/src/a.txt'' (rel_path_origem cfg_a (env_de falha_put) ''/src/a.txt'')
            (snd (remover (env_de falha_put) (destino_path1 cfg_a (env_de falha_put) ''/src/a.txt'') []))))))
   \<and> \<not> falhou (env_de falha_put) (snd (remover (env_de falha_put) (caminho_dest2 cfg_a (env_de falha_put) ''/src/a.txt'') []))
       (snd (baixar2 cfg_a (env_de falha_put) ''/src/a.txt'' (rel_path_origem cfg_a (env_de falha_put) ''/src/a.txt'')
            (snd (remover (env_de falha_put) (caminho_dest2 cfg_a (env_de falha_put) ''/src/a.txt'') []))))
   \<and> falhou (env_de falha_remove) [] (snd (remover (env_de falha_remove) (destino_path1 cfg_a (env_de falha_remove) ''/src/a.txt'') []))
   \<and> falhou (env_de falha_remove) [] (snd (remover (env_de falha_remove) (caminho_dest2 cfg_a (env_de falha_remove) ''/src/a.txt'') []))
   \<and> decidir destino_a (caminho_dest2 cfg_a (env_de falha_remove) ''/src/a.txt'') \<lparr>tamanho = 10, data = 10\<rparr> = Replace
   \<and> falhou (env_de falha_get) (snd (remover (env_de falha_get) (caminho_dest2 cfg_a (env_de falha_get) ''/src/a.txt'') []))
       (snd (baixar2 cfg_a (env_de falha_get) ''/src/a.txt'' (rel_path_origem cfg_a (env_de falha_get) ''/src/a.txt'')
            (snd (remover (env_de falha_get) (caminho_dest2 cfg_a (env_de falha_get) ''/src/a.txt'') []))))
   \<and> fst (processar1 cfg_a (env_de falha_put) destino_a
      (''/src/a.txt'', \<lparr>tamanho = 10, data = 10\<rparr>) (status_inicial, []))
     = \<lparr>novos = 0, iguais = 0, reenviados = 1, erros_download = 0, erros_upload = 1,
        erros_remocao = 0\<rparr>
   \<and> fst (processar2 cfg_a (env_de falha_remove) destino_a
      (''/src/a.txt'', \<lparr>tamanho = 10, data = 10\<rparr>) (status_inicial, []))
     = \<lparr>novos = 0, iguais = 0, reenviados = 1, erros_download = 0, erros_upload = 0,
        erros_remocao = 1\<rparr>
   \<and> fst (processar1 cfg_a (env_de falha_get) destino_a
      (''/src/a.txt'', \<lparr>tamanho = 10, data = 10\<rparr>) (status_inicial, []))
     = \<lparr>novos = 0, iguais = 0, reenviados = 1, erros_download = 1, erros_upload = 0,
        erros_remocao = 0\<rparr>
   \<and> fst (processar2 cfg_a (env_de falha_put) destino_a
      (''/src/a.txt'', \<lparr>tamanho = 10, data = 10\<rparr>) (status_inicial, []))
     = \<lparr>novos = 0, iguais = 0, reenviados = 1, erros_download = 0, erros_upload = 1,
        erros_remocao = 0\<rparr>"
proof -
  note c1 = contadores_por_entrada [OF refl refl refl refl refl refl refl refl refl refl refl refl,
      where cfg = cfg_a and env = "env_de falha_put" and dest = destino_a
      and c = "''/src/a.txt''" and dados = "\<lparr>tamanho = 10, data = 10\<rparr>"
      and st = status_inicial and tr = "[]",
      THEN conjunct2, THEN conjunct2, THEN conjunct2, THEN conjunct2, THEN conjunct2, THEN conjunct1]
  note c2 = contadores_por_entrada [OF refl refl refl refl refl refl refl refl refl refl refl refl,
      where cfg = cfg_a and env = "env_de falha_remove" and dest = destino_a
      and c = "''/src/a.txt''" and dados = "\<lparr>tamanho = 10, data = 10\<rparr>"
      and st = status_inicial and tr = "[]",
      THEN conjunct2, THEN conjunct2, THEN conjunct2, THEN conjunct2, THEN conjunct2, THEN conjunct2, THEN conjunct2, THEN conjunct2, THEN conjunct2, THEN conjunct1]
  note c3 = contadores_por_entrada [OF refl refl refl refl refl refl refl refl refl refl refl refl,
      where cfg = cfg_a and env = "env_de falha_get" and dest = destino_a
      and c = "''/src/a.txt''" and dados = "\<lparr>tamanho = 10, data = 10\<rparr>"
      and st = status_inicial and tr = "[]",
      THEN conjunct2, THEN conjunct2, THEN conjunct2, THEN conjunct2, THEN conjunct1]
  note c4 = contadores_por_entrada [OF refl refl refl refl refl refl refl refl refl refl refl refl,
      where cfg = cfg_a and env = "env_de falha_put" and dest = destino_a
      and c = "''/src/a.txt''" and dados = "\<lparr>tamanho = 10, data = 10\<rparr>"
      and st = status_inicial and tr = "[]",
      THEN conjunct2, THEN conjunct2, THEN conjunct2, THEN conjunct2, THEN conjunct2, THEN conjunct2, THEN conjunct2, THEN conjunct2, THEN conjunct2, THEN conjunct2, THEN conjunct2, THEN conjunct1]
  from c1 c2 c3 c4 entradas_com_falha hipoteses_com_falha show ?thesis by simp
qed

section \<open>Removal before a replacement, and a failed download\<close>

text \<open>C6. For a Replace decision the download block starts from the history left by the
  removal block, and the calls of the entry are those of the removal block, then those of
  the download block, then, when no call of the download block raised, those of the upload
  block, whether the removal failed or not; \<open>erros_remocao\<close> gets one more exactly when a
  call of the removal block raised. The removal block opens a session, asks \<open>exists\<close>,
  and calls \<open>remove\<close> exactly when the session opened and \<open>exists\<close> answered true. The
  upload block opens a session, runs \<open>ensure_remote_dirs\<close> on the directory of the
  destination path and, when that raised nothing, calls \<open>put\<close>. When a call of the
  download block of an entry that is not skipped raised, the loop goes on to the
  remaining entries with one more \<open>erros_download\<close>, the same \<open>erros_upload\<close>, and the
  history left by the download block, whose calls are local directory creations and
  \<open>get\<close>s: no session to the destination, no \<open>mkdir\<close> and no \<open>put\<close> is made for the
  entry.\<close>

theorem reenvio_e_falha_download:
  assumes "d1 = decidir dest (rel_path_origem cfg env c) dados"
    and "tR1 = snd (remover env (destino_path1 cfg env c) tr)"
    and "t01 = (if d1 = Replace then tR1 else tr)"
    and "tB1 = snd (baixar1 env c (rel_path_origem cfg env c) t01)"
    and "tE1 = snd (enviar env (rel_path_origem cfg env c) (destino_path1 cfg env c) tB1)"
    and "s1 = fst (processar1 cfg env dest (c, dados) (st, tr))"
    and "d2 = decidir dest (caminho_dest2 cfg env c) dados"
    and "tR2 = snd (remover env (caminho_dest2 cfg env c) tr)"
    and "t02 = (if d2 = Replace then tR2 else tr)"
    and "tB2 = snd (baixar2 cfg env c (rel_path_origem cfg env c) t02)"
    and "tE2 = snd (enviar env (rel_path_origem cfg env c) (caminho_dest2 cfg env c) tB2)"
    and "s2 = fst (processar2 cfg env dest (c, dados) (st, tr))"
  shows "(d1 = Replace \<longrightarrow>
      tB1 = snd (baixar1 env c (rel_path_origem cfg env c) tR1)
      \<and> snd (processar1 cfg env dest (c, dados) (st, tr))
          = (if falhou env tR1 tB1 then tB1 else tE1)
      \<and> erros_remocao s1 = erros_remocao st + (if falhou env tr tR1 then 1 else 0))
   \<and> (d1 \<noteq> Skip \<and> \<not> falhou env t01 tB1 \<longrightarrow>
      snd (processar1 cfg env dest (c, dados) (st, tr)) = tE1)
   \<and> (d1 \<noteq> Skip \<and> falhou env t01 tB1 \<longrightarrow>
      fold (processar1 cfg env dest) ((c, dados) # resto) (st, tr)
        = fold (processar1 cfg env dest) resto (s1, tB1)
      \<and> erros_download s1 = erros_download st + 1
      \<and> erros_upload s1 = erros_upload st)
   \<and> (d2 = Replace \<longrightarrow>
      tB2 = snd (baixar2 cfg env c (rel_path_origem cfg env c) tR2)
      \<and> snd (processar2 cfg env dest (c, dados) (st, tr))
          = (if falhou env tR2 tB2 then tB2 else tE2)
      \<and> erros_remocao s2 = erros_remocao st + (if falhou env tr tR2 then 1 else 0))
   \<and> (d2 \<noteq> Skip \<and> \<not> falhou env t02 tB2 \<longrightarrow>
      snd (processar2 cfg env dest (c, dados) (st, tr)) = tE2)
   \<and> (d2 \<noteq> Skip \<and> falhou env t02 tB2 \<longrightarrow>
      fold (processar2 cfg env dest) ((c, dados) # resto) (st, tr)
        = fold (processar2 cfg env dest) resto (s2, tB2)
      \<and> erros_download s2 = erros_download st + 1
      \<and> erros_upload s2 = erros_upload st)
   \<and> snd (remover env pq tq) =
       tq @ Connect Destino #
         (if resposta env tq (Connect Destino) = Raised then []
          else Exists pq #
            (if resposta env (tq @ [Connect Destino]) (Exists pq) = Returned True
             then [Remove pq] else []))
   \<and> snd (baixar1 env cq rq tq) =
       tq @ LocalMkdirParent (TempPath rq) #
         (if resposta env tq (LocalMkdirParent (TempPath rq)) = Raised then []
          else [Get cq (TempPath rq)])
   \<and> snd (baixar2 cfg env cq rq tq) =
       (if \<not> falhou env tq (snd (baixar1 env cq rq tq)) \<and> keep_extra_local_copy cfg then
          snd (baixar1 env cq rq tq) @ LocalMkdirParent (CopyPath rq) #
            (if resposta env (snd (baixar1 env cq rq tq)) (LocalMkdirParent (CopyPath rq)) = Raised
             then [] else [Get cq (CopyPath rq)])
        else snd (baixar1 env cq rq tq))
   \<and> snd (enviar env rq pq tq) =
       (if resposta env tq (Connect Destino) = Raised then tq @ [Connect Destino]
        else if falhou env (tq @ [Connect Destino])
                  (snd (ensure_remote_dirs env (dirname pq) (tq @ [Connect Destino])))
        then snd (ensure_remote_dirs env (dirname pq) (tq @ [Connect Destino]))
        else snd (ensure_remote_dirs env (dirname pq) (tq @ [Connect Destino]))
               @ [Put (TempPath rq) pq])
   \<and> (\<exists>xs. snd (ensure_remote_dirs env dq tq) = tq @ Exists (py_replace ''//'' ''/'' dq) # xs
             \<and> list_all chamada_diretorio xs)"
proof -
  note e1 = processar1_exato [OF assms(1-6)]
  note e2 = processar2_exato [OF assms(7-12)]
  have p1: "(d1 = Replace \<longrightarrow>
      tB1 = snd (baixar1 env c (rel_path_origem cfg env c) tR1)
      \<and> snd (processar1 cfg env dest (c, dados) (st, tr))
          = (if falhou env tR1 tB1 then tB1 else tE1)
      \<and> erros_remocao s1 = erros_remocao st + (if falhou env tr tR1 then 1 else 0))
   \<and> (d1 \<noteq> Skip \<and> \<not> falhou env t01 tB1 \<longrightarrow>
      snd (processar1 cfg env dest (c, dados) (st, tr)) = tE1)
   \<and> (d1 \<noteq> Skip \<and> falhou env t01 tB1 \<longrightarrow>
      fold (processar1 cfg env dest) ((c, dados) # resto) (st, tr)
        = fold (processar1 cfg env dest) resto (s1, tB1)
      \<and> erros_download s1 = erros_download st + 1
      \<and> erros_upload s1 = erros_upload st)"
  proof (intro conjI impI)
    assume r: "d1 = Replace"
    then have t: "t01 = tR1" using assms(3) by simp
    show "tB1 = snd (baixar1 env c (rel_path_origem cfg env c) tR1)" using assms(4) t by simp
    show "snd (processar1 cfg env dest (c, dados) (st, tr))
          = (if falhou env tR1 tB1 then tB1 else tE1)"
      using e1(7) r t by simp
    show "erros_remocao s1 = erros_remocao st + (if falhou env tr tR1 then 1 else 0)"
      using e1(4) r by simp
  next
    assume "d1 \<noteq> Skip \<and> \<not> falhou env t01 tB1"
    then show "snd (processar1 cfg env dest (c, dados) (st, tr)) = tE1"
      using e1(7) by simp
  next
    assume f: "d1 \<noteq> Skip \<and> falhou env t01 tB1"
    then have "snd (processar1 cfg env dest (c, dados) (st, tr)) = tB1"
      using e1(7) by simp
    then have "processar1 cfg env dest (c, dados) (st, tr) = (s1, tB1)"
      using assms(6) by (simp add: prod_eq_iff)
    then show "fold (processar1 cfg env dest) ((c, dados) # resto) (st, tr)
        = fold (processar1 cfg env dest) resto (s1, tB1)"
      by simp
    show "erros_download s1 = erros_download st + 1" using e1(5) f by simp
    show "erros_upload s1 = erros_upload st" using e1(6) f by simp
  qed
  have p2: "(d2 = Replace \<longrightarrow>
      tB2 = snd (baixar2 cfg env c (rel_path_origem cfg env c) tR2)
      \<and> snd (processar2 cfg env dest (c, dados) (st, tr))
          = (if falhou env tR2 tB2 then tB2 else tE2)
      \<and> erros_remocao s2 = erros_remocao st + (if falhou env tr tR2 then 1 else 0))
   \<and> (d2 \<noteq> Skip \<and> \<not> falhou env t02 tB2 \<longrightarrow>
      snd (processar2 cfg env dest (c, dados) (st, tr)) = tE2)
   \<and> (d2 \<noteq> Skip \<and> falhou env t02 tB2 \<longrightarrow>
      fold (processar2 cfg env dest) ((c, dados) # resto) (st, tr)
        = fold (processar2 cfg env dest) resto (s2, tB2)
      \<and> erros_download s2 = erros_download st + 1
      \<and> erros_upload s2 = erros_upload st)"
  proof (intro conjI impI)
    assume r: "d2 = Replace"
    then have t: "t02 = tR2" using assms(9) by simp
    show "tB2 = snd (baixar2 cfg env c (rel_path_origem cfg env c) tR2)" using assms(10) t by simp
    show "snd (processar2 cfg env dest (c, dados) (st, tr))
          = (if falhou env tR2 tB2 then tB2 else tE2)"
      using e2(7) r t by simp
    show "erros_remocao s2 = erros_remocao st + (if falhou env tr tR2 then 1 else 0)"
      using e2(4) r by simp
  next
    assume "d2 \<noteq> Skip \<and> \<not> falhou env t02 tB2"
    then show "snd (processar2 cfg env dest (c, dados) (st, tr)) = tE2"
      using e2(7) by simp
  next
    assume f: "d2 \<noteq> Skip \<and> falhou env t02 tB2"
    then have "snd (processar2 cfg env dest (c, dados) (st, tr)) = tB2"
      using e2(7) by simp
    then have "processar2 cfg env dest (c, dados) (st, tr) = (s2, tB2)"
      using assms(12) by (simp add: prod_eq_iff)
    then show "fold (processar2 cfg env dest) ((c, dados) # resto) (st, tr)
        = fold (processar2 cfg env dest) resto (s2, tB2)"
      by simp
    show "erros_download s2 = erros_download st + 1" using e2(5) f by simp
    show "erros_upload s2 = erros_upload st" using e2(6) f by simp
  qed
  from p1 p2
    chamadas_dos_blocos [where env = env and pq = pq and tq = tq and cq = cq and rq = rq
      and cfg = cfg and dq = dq]
  show ?thesis by blast
qed

theorem reenvio_e_falha_download_witness:
  "decidir destino_a (rel_path_origem cfg_a (env_de falha_remove) ''/src/a.txt'') \<lparr>tamanho = 10, data = 10\<rparr> = Replace
   \<and> decidir destino_a (caminho_dest2 cfg_a (env_de falha_remove) ''/src/a.txt'') \<lparr>tamanho = 10, data = 10\<rparr> = Replace
   \<and> falhou (env_de falha_remove) [] (snd (remover (env_de falha_remove) (destino_path1 cfg_a (env_de falha_remove) ''/src/a.txt'') []))
   \<and> falhou (env_de falha_remove) [] (snd (remover (env_de falha_remove) (caminho_dest2 cfg_a (env_de falha_remove) ''/src/a.txt'') []))
   \<and> decidir destino_a (rel_path_origem cfg_a (env_de falha_get) ''/src/a.txt'') \<lparr>tamanho = 10, data = 10\<rparr> = Replace
   \<and> decidir destino_a (caminho_dest2 cfg_a (env_de falha_get) ''/src/a.txt'') \<lparr>tamanho = 10, data = 10\<rparr> = Replace
   \<and> falhou (env_de falha_get) (snd (remover (env_de falha_get) (destino_path1 cfg_a (env_de falha_get) ''/src/a.txt'') []))
       (snd (baixar1 (env_de falha_get) ''/src/a.txt'' (rel_path_origem cfg_a (env_de falha_get) ''/src/a.txt'')
            (snd (remover (env_de falha_get) (destino_path1 cfg_a (env_de falha_get) ''/src/a.txt'') []))))
   \<and> falhou (env_de falha_get) (snd (remover (env_de falha_get) (caminho_dest2 cfg_a (env_de falha_get) ''/src/a.txt'') []))
       (snd (baixar2 cfg_a (env_de falha_get) ''/src/a.txt'' (rel_path_origem cfg_a (env_de falha_get) ''/src/a.txt'')
            (snd (remover (env_de falha_get) (caminho_dest2 cfg_a (env_de falha_get) ''/src/a.txt'') []))))
   \<and> processar1 cfg_a (env_de falha_remove) destino_a
      (''/src/a.txt'', \<lparr>tamanho = 10, data = 10\<rparr>) (status_inicial, [])
     = (\<lparr>novos = 0, iguais = 0, reenviados = 1, erros_download = 0, erros_upload = 0,
        erros_remocao = 1\<rparr>,
        [Connect Destino, Exists ''/dst/uploads/a.txt'', Remove ''/dst/uploads/a.txt'',
        LocalMkdirParent (TempPath ''a.txt''), Get ''/src/a.txt'' (TempPath ''a.txt''),
        Connect Destino, Exists ''/dst/uploads'',
        Put (TempPath ''a.txt'') ''/dst/uploads/a.txt''])
   \<and> processar2 cfg_a (env_de falha_remove) destino_a
      (''/src/a.txt'', \<lparr>tamanho = 10, data = 10\<rparr>) (status_inicial, [])
     = (\<lparr>novos = 0, iguais = 0, reenviados = 1, erros_download = 0, erros_upload = 0,
        erros_remocao = 1\<rparr>,
        [Connect Destino, Exists ''/dst/a.txt'', Remove ''/dst/a.txt'',
        LocalMkdirParent (TempPath ''a.txt''), Get ''/src/a.txt'' (TempPath ''a.txt''),
        LocalMkdirParent (CopyPath ''a.txt''), Get ''/src/a.txt'' (CopyPath ''a.txt''),
        Connect Destino, Exists ''/dst'', Put (TempPath ''a.txt'') ''/dst/a.txt''])
   \<and> processar1 cfg_a (env_de falha_get) destino_a
      (''/src/a.txt'', \<lparr>tamanho = 10, data = 10\<rparr>) (status_inicial, [])
     = (\<lparr>novos = 0, iguais = 0, reenviados = 1, erros_download = 1, erros_upload = 0,
        erros_remocao = 0\<rparr>,
        [Connect Destino, Exists ''/dst/uploads/a.txt'', Remove ''/dst/uploads/a.txt'',
        LocalMkdirParent (TempPath ''a.txt''), Get ''/src/a.txt'' (TempPath ''a.txt'')])
   \<and> processar2 cfg_a (env_de falha_get) destino_a
      (''/src/a.txt'', \<lparr>tamanho = 10, data = 10\<rparr>) (status_inicial, [])
     = (\<lparr>novos = 0, iguais = 0, reenviados = 1, erros_download = 1, erros_upload = 0,
        erros_remocao = 0\<rparr>,
        [Connect Destino, Exists ''/dst/a.txt'', Remove ''/dst/a.txt'',
        LocalMkdirParent (TempPath ''a.txt''), Get ''/src/a.txt'' (TempPath ''a.txt'')])"
proof -
  note c1 = reenvio_e_falha_download [OF refl refl refl refl refl refl refl refl refl refl refl refl,
      where cfg = cfg_a and env = "env_de falha_remove" and dest = destino_a
      and c = "''/src/a.txt''" and dados = "\<lparr>tamanho = 10, data = 10\<rparr>"
      and st = status_inicial and tr = "[]",
      THEN conjunct1]
  note c2 = reenvio_e_falha_download [OF refl refl refl refl refl refl refl refl refl refl refl refl,
      where cfg = cfg_a and env = "env_de falha_remove" and dest = destino_a
      and c = "''/src/a.txt''" and dados = "\<lparr>tamanho = 10, data = 10\<rparr>"
      and st = status_inicial and tr = "[]",
      THEN conjunct2, THEN conjunct2, THEN conjunct2, THEN conjunct1]
  note c3 = reenvio_e_falha_download [OF refl refl refl refl refl refl refl refl refl refl refl refl,
      where cfg = cfg_a and env = "env_de falha_get" and dest = destino_a
      and c = "''/src/a.txt''" and dados = "\<lparr>tamanho = 10, data = 10\<rparr>"
      and st = status_inicial and tr = "[]",
      THEN conjunct2, THEN conjunct2, THEN conjunct1]
  note c4 = reenvio_e_falha_download [OF refl refl refl refl refl refl refl refl refl refl refl refl,
      where cfg = cfg_a and env = "env_de falha_get" and dest = destino_a
      and c = "''/src/a.txt''" and dados = "\<lparr>tamanho = 10, data = 10\<rparr>"
      and st = status_inicial and tr = "[]",
      THEN conjunct2, THEN conjunct2, THEN conjunct2, THEN conjunct2, THEN conjunct2, THEN conjunct1]
  from c1 c2 c3 c4 entradas_com_falha hipoteses_com_falha show ?thesis by simp
qed

section \<open>Failures that end the run and failures that do not\<close>

lemma listar_raiz_falha:
  "(lista_origem env = None \<longrightarrow> snapshot_origem1 cfg env = [] \<and> snapshot_origem2 cfg env = [])
   \<and> (lista_uploads env = None \<and> lista_processados env = None \<longrightarrow> snapshot_destino1 cfg env = [])
   \<and> (lista_destino env = None \<longrightarrow> snapshot_destino2 cfg env = [])"
  by (simp add: snapshot_origem1_def snapshot_origem2_def snapshot_destino1_def
      snapshot_destino2_def snapshot_uploads1_def snapshot_processados1_def
      arquivos_dest_rel1_def dict_update_Nil)

lemma execucoes_com_falha:
  "main1 cfg_a (env_de (falha_conexao Destino)) = (Inl (FalhaConexao Destino), [Connect Destino])
   \<and> main2 cfg_a (env_de (falha_conexao Origem))
     = (Inl (FalhaConexao Origem), [Connect Destino, Connect Origem])
   \<and> main2 (cfg_a\<lparr>days_back := 800000\<rparr>) (env_de tudo_ok) = (Inl DataForaDoIntervalo, [])
   \<and> fst (main1 cfg_a (env_de falha_put))
     = Inr \<lparr>novos = 1, iguais = 0, reenviados = 0, erros_download = 0, erros_upload = 1,
        erros_remocao = 0\<rparr>
   \<and> fst (main2 cfg_a (env_de falha_get))
     = Inr \<lparr>novos = 1, iguais = 0, reenviados = 0, erros_download = 1, erros_upload = 0,
        erros_remocao = 0\<rparr>"
  by code_simp

text \<open>C3, as amended. A run ends with an error only before its loop: in Cliente2 when
  \<open>data_limite\<close> is not a representable date, with no call made, and in both scripts
  when one of the two sessions opened at the top of \<open>main\<close> (destination, then source)
  cannot be opened, with only the connection attempts made. Otherwise the run completes
  with the counters of the loop. In the loop a failure of an entry is counted and the loop
  goes on to the remaining entries: a raising call of the removal block of a Replace entry
  adds one to \<open>erros_remocao\<close>, a raising call of the download block adds one to
  \<open>erros_download\<close>, and a raising call of the upload block, after a download that raised
  nothing, adds one to \<open>erros_upload\<close>. A root that cannot be listed does not end the
  run: its snapshot is empty. The last five conjuncts say which calls each block
  makes.\<close>

theorem falhas_fatais_e_locais:
  assumes "d1 = decidir dest (rel_path_origem cfg env c) dados"
    and "tR1 = snd (remover env (destino_path1 cfg env c) tr)"
    and "t01 = (if d1 = Replace then tR1 else tr)"
    and "tB1 = snd (baixar1 env c (rel_path_origem cfg env c) t01)"
    and "tE1 = snd (enviar env (rel_path_origem cfg env c) (destino_path1 cfg env c) tB1)"
    and "s1 = fst (processar1 cfg env dest (c, dados) (st, tr))"
    and "d2 = decidir dest (caminho_dest2 cfg env c) dados"
    and "tR2 = snd (remover env (caminho_dest2 cfg env c) tr)"
    and "t02 = (if d2 = Replace then tR2 else tr)"
    and "tB2 = snd (baixar2 cfg env c (rel_path_origem cfg env c) t02)"
    and "tE2 = snd (enviar env (rel_path_origem cfg env c) (caminho_dest2 cfg env c) tB2)"
    and "s2 = fst (processar2 cfg env dest (c, dados) (st, tr))"
  shows "main1 cfg env =
       (if resposta env [] (Connect Destino) = Raised
        then (Inl (FalhaConexao Destino), [Connect Destino])
        else if resposta env [Connect Destino] (Connect Origem) = Raised
        then (Inl (FalhaConexao Origem), [Connect Destino, Connect Origem])
        else (Inr (fst (fold (processar1 cfg env (snapshot_destino1 cfg env))
                          (snapshot_origem1 cfg env)
                          (status_inicial, [Connect Destino, Connect Origem]))),
              enviar_log cfg env
                (snd (fold (processar1 cfg env (snapshot_destino1 cfg env))
                          (snapshot_origem1 cfg env)
                          (status_inicial, [Connect Destino, Connect Origem])))))
   \<and> main2 cfg env =
       (if \<not> data_limite_representavel cfg env then (Inl DataForaDoIntervalo, [])
        else if resposta env [] (Connect Destino) = Raised
        then (Inl (FalhaConexao Destino), [Connect Destino])
        else if resposta env [Connect Destino] (Connect Origem) = Raised
        then (Inl (FalhaConexao Origem), [Connect Destino, Connect Origem])
        else (Inr (fst (fold (processar2 cfg env (snapshot_destino2 cfg env))
                          (snapshot_origem2 cfg env)
                          (status_inicial, [Connect Destino, Connect Origem]))),
              enviar_log cfg env
                (snd (fold (processar2 cfg env (snapshot_destino2 cfg env))
                          (snapshot_origem2 cfg env)
                          (status_inicial, [Connect Destino, Connect Origem])))))
   \<and> (lista_origem env = None \<longrightarrow> snapshot_origem1 cfg env = [] \<and> snapshot_origem2 cfg env = [])
   \<and> (lista_uploads env = None \<and> lista_processados env = None \<longrightarrow> snapshot_destino1 cfg env = [])
   \<and> (lista_destino env = None \<longrightarrow> snapshot_destino2 cfg env = [])
   \<and> (d1 = Replace \<and> falhou env tr tR1 \<longrightarrow> erros_remocao s1 = erros_remocao st + 1)
   \<and> (d1 \<noteq> Skip \<and> falhou env t01 tB1 \<longrightarrow>
      erros_download s1 = erros_download st + 1)
   \<and> (d1 \<noteq> Skip \<and> \<not> falhou env t01 tB1 \<and> falhou env tB1 tE1 \<longrightarrow>
      erros_upload s1 = erros_upload st + 1)
   \<and> fold (processar1 cfg env dest) ((c, dados) # resto) (st, tr)
       = fold (processar1 cfg env dest) resto
           (s1, if d1 = Skip then tr else if falhou env t01 tB1 then tB1 else tE1)
   \<and> (d2 = Replace \<and> falhou env tr tR2 \<longrightarrow> erros_remocao s2 = erros_remocao st + 1)
   \<and> (d2 \<noteq> Skip \<and> falhou env t02 tB2 \<longrightarrow>
      erros_download s2 = erros_download st + 1)
   \<and> (d2 \<noteq> Skip \<and> \<not> falhou env t02 tB2 \<and> falhou env tB2 tE2 \<longrightarrow>
      erros_upload s2 = erros_upload st + 1)
   \<and> fold (processar2 cfg env dest) ((c, dados) # resto) (st, tr)
       = fold (processar2 cfg env dest) resto
           (s2, if d2 = Skip then tr else if falhou env t02 tB2 then tB2 else tE2)
   \<and> snd (remover env pq tq) =
       tq @ Connect Destino #
         (if resposta env tq (Connect Destino) = Raised then []
          else Exists pq #
            (if resposta env (tq @ [Connect Destino]) (Exists pq) = Returned True
             then [Remove pq] else []))
   \<and> snd (baixar1 env cq rq tq) =
       tq @ LocalMkdirParent (TempPath rq) #
         (if resposta env tq (LocalMkdirParent (TempPath rq)) = Raised then []
          else [Get cq (TempPath rq)])
   \<and> snd (baixar2 cfg env cq rq tq) =
       (if \<not> falhou env tq (snd (baixar1 env cq rq tq)) \<and> keep_extra_local_copy cfg then
          snd (baixar1 env cq rq tq) @ LocalMkdirParent (CopyPath rq) #
            (if resposta env (snd (baixar1 env cq rq tq)) (LocalMkdirParent (CopyPath rq)) = Raised
             then [] else [Get cq (CopyPath rq)])
        else snd (baixar1 env cq rq tq))
   \<and> snd (enviar env rq pq tq) =
       (if resposta env tq (Connect Destino) = Raised then tq @ [Connect Destino]
        else if falhou env (tq @ [Connect Destino])
                  (snd (ensure_remote_dirs env (dirname pq) (tq @ [Connect Destino])))
        then snd (ensure_remote_dirs env (dirname pq) (tq @ [Connect Destino]))
        else snd (ensure_remote_dirs env (dirname pq) (tq @ [Connect Destino]))
               @ [Put (TempPath rq) pq])
   \<and> (\<exists>xs. snd (ensure_remote_dirs env dq tq) = tq @ Exists (py_replace ''//'' ''/'' dq) # xs
             \<and> list_all chamada_diretorio xs)"
proof -
  note e1 = processar1_exato [OF assms(1-6)]
  note e2 = processar2_exato [OF assms(7-12)]
  have m: "main1 cfg env =
       (if resposta env [] (Connect Destino) = Raised
        then (Inl (FalhaConexao Destino), [Connect Destino])
        else if resposta env [Connect Destino] (Connect Origem) = Raised
        then (Inl (FalhaConexao Origem), [Connect Destino, Connect Origem])
        else (Inr (fst (fold (processar1 cfg env (snapshot_destino1 cfg env))
                          (snapshot_origem1 cfg env)
                          (status_inicial, [Connect Destino, Connect Origem]))),
              enviar_log cfg env
                (snd (fold (processar1 cfg env (snapshot_destino1 cfg env))
                          (snapshot_origem1 cfg env)
                          (status_inicial, [Connect Destino, Connect Origem])))))
   \<and> main2 cfg env =
       (if \<not> data_limite_representavel cfg env then (Inl DataForaDoIntervalo, [])
        else if resposta env [] (Connect Destino) = Raised
        then (Inl (FalhaConexao Destino), [Connect Destino])
        else if resposta env [Connect Destino] (Connect Origem) = Raised
        then (Inl (FalhaConexao Origem), [Connect Destino, Connect Origem])
        else (Inr (fst (fold (processar2 cfg env (snapshot_destino2 cfg env))
                          (snapshot_origem2 cfg env)
                          (status_inicial, [Connect Destino, Connect Origem]))),
              enviar_log cfg env
                (snd (fold (processar2 cfg env (snapshot_destino2 cfg env))
                          (snapshot_origem2 cfg env)
                          (status_inicial, [Connect Destino, Connect Origem])))))
   \<and> (lista_origem env = None \<longrightarrow> snapshot_origem1 cfg env = [] \<and> snapshot_origem2 cfg env = [])
   \<and> (lista_uploads env = None \<and> lista_processados env = None \<longrightarrow> snapshot_destino1 cfg env = [])
   \<and> (lista_destino env = None \<longrightarrow> snapshot_destino2 cfg env = [])"
    using main1_casos [of cfg env] main2_casos [of cfg env] listar_raiz_falha [of env cfg]
    by blast
  have p1: "processar1 cfg env dest (c, dados) (st, tr)
      = (s1, if d1 = Skip then tr else if falhou env t01 tB1 then tB1 else tE1)"
    using e1(7) assms(6) by (simp add: prod_eq_iff)
  have p2: "processar2 cfg env dest (c, dados) (st, tr)
      = (s2, if d2 = Skip then tr else if falhou env t02 tB2 then tB2 else tE2)"
    using e2(7) assms(12) by (simp add: prod_eq_iff)
  have c1: "(d1 = Replace \<and> falhou env tr tR1 \<longrightarrow> erros_remocao s1 = erros_remocao st + 1)
   \<and> (d1 \<noteq> Skip \<and> falhou env t01 tB1 \<longrightarrow>
      erros_download s1 = erros_download st + 1)
   \<and> (d1 \<noteq> Skip \<and> \<not> falhou env t01 tB1 \<and> falhou env tB1 tE1 \<longrightarrow>
      erros_upload s1 = erros_upload st + 1)
   \<and> fold (processar1 cfg env dest) ((c, dados) # resto) (st, tr)
       = fold (processar1 cfg env dest) resto
           (s1, if d1 = Skip then tr else if falhou env t01 tB1 then tB1 else tE1)"
    using e1(4,5,6) p1 by simp
  have c2: "(d2 = Replace \<and> falhou env tr tR2 \<longrightarrow> erros_remocao s2 = erros_remocao st + 1)
   \<and> (d2 \<noteq> Skip \<and> falhou env t02 tB2 \<longrightarrow>
      erros_download s2 = erros_download st + 1)
   \<and> (d2 \<noteq> Skip \<and> \<not> falhou env t02 tB2 \<and> falhou env tB2 tE2 \<longrightarrow>
      erros_upload s2 = erros_upload st + 1)
   \<and> fold (processar2 cfg env dest) ((c, dados) # resto) (st, tr)
       = fold (processar2 cfg env dest) resto
           (s2, if d2 = Skip then tr else if falhou env t02 tB2 then tB2 else tE2)"
    using e2(4,5,6) p2 by simp
  from m c1 c2
    chamadas_dos_blocos [where env = env and pq = pq and tq = tq and cq = cq and rq = rq
      and cfg = cfg and dq = dq]
  show ?thesis by blast
qed

theorem falhas_fatais_e_locais_witness:
  "main1 cfg_a (env_de (falha_conexao Destino)) = (Inl (FalhaConexao Destino), [Connect Destino])
   \<and> main2 cfg_a (env_de (falha_conexao Origem))
     = (Inl (FalhaConexao Origem), [Connect Destino, Connect Origem])
   \<and> main2 (cfg_a\<lparr>days_back := 800000\<rparr>) (env_de tudo_ok) = (Inl DataForaDoIntervalo, [])
   \<and> fst (main1 cfg_a (env_de falha_put))
     = Inr \<lparr>novos = 1, iguais = 0, reenviados = 0, erros_download = 0, erros_upload = 1,
        erros_remocao = 0\<rparr>
   \<and> fst (main2 cfg_a (env_de falha_get))
     = Inr \<lparr>novos = 1, iguais = 0, reenviados = 0, erros_download = 1, erros_upload = 0,
        erros_remocao = 0\<rparr>
   \<and> decidir destino_a (rel_path_origem cfg_a (env_de falha_remove) ''/src/a.txt'') \<lparr>tamanho = 10, data = 10\<rparr> = Replace
   \<and> falhou (env_de falha_remove) [] (snd (remover (env_de falha_remove) (destino_path1 cfg_a (env_de falha_remove) ''/src/a.txt'') []))
   \<and> decidir destino_a (caminho_dest2 cfg_a (env_de falha_get) ''/src/a.txt'') \<lparr>tamanho = 10, data = 10\<rparr> = Replace
   \<and> falhou (env_de falha_get) (snd (remover (env_de falha_get) (caminho_dest2 cfg_a (env_de falha_get) ''/src/a.txt'') []))
       (snd (baixar2 cfg_a (env_de falha_get) ''/src/a.txt'' (rel_path_origem cfg_a (env_de falha_get) ''/src/a.txt'')
            (snd (remover (env_de falha_get) (caminho_dest2 cfg_a (env_de falha_get) ''/src/a.txt'') []))))
   \<and> decidir destino_a (rel_path_origem cfg_a (env_de falha_put) ''/src/a.txt'') \<lparr>tamanho = 10, data = 10\<rparr> = Replace
   \<and> \<not> falhou (env_de falha_put) (snd (remover (env_de falha_put) (destino_path1 cfg_a (env_de falha_put) ''/src/a.txt'') []))
       (snd (baixar1 (env_de falha_put) ''/src/a.txt'' (rel_path_origem cfg_a (env_de falha_put) ''/src/a.txt'')
            (snd (remover (env_de falha_put) (destino_path1 cfg_a (env_de falha_put) ''/src/a.txt'') []))))
   \<and> falhou (env_de falha_put) (snd (baixar1 (env_de falha_put) ''/src/a.txt'' (rel_path_origem cfg_a (env_de falha_put) ''/src/a.txt'')
            (snd (remover (env_de falha_put) (destino_path1 cfg_a (env_de falha_put) ''/src/a.txt'') []))))
       (snd (enviar (env_de falha_put) (rel_path_origem cfg_a (env_de falha_put) ''/src/a.txt'') (destino_path1 cfg_a (env_de falha_put) ''/src/a.txt'')
            (snd (baixar1 (env_de falha_put) ''/src/a.txt'' (rel_path_origem cfg_a (env_de falha_put) ''/src/a.txt'')
            (snd (remover (env_de falha_put) (destino_path1 cfg_a (env_de falha_put) ''/src/a.txt'') []))))))
   \<and> fst (processar1 cfg_a (env_de falha_remove) destino_a
      (''/src/a.txt'', \<lparr>tamanho = 10, data = 10\<rparr>) (status_inicial, []))
     = \<lparr>novos = 0, iguais = 0, reenviados = 1, erros_download = 0, erros_upload = 0,
        erros_remocao = 1\<rparr>
   \<and> fst (processar2 cfg_a (env_de falha_get) destino_a
      (''/src/a.txt'', \<lparr>tamanho = 10, data = 10\<rparr>) (status_inicial, []))
     = \<lparr>novos = 0, iguais = 0, reenviados = 1, erros_download = 1, erros_upload = 0,
        erros_remocao = 0\<rparr>
   \<and> fst (processar1 cfg_a (env_de falha_put) destino_a
      (''/src/a.txt'', \<lparr>tamanho = 10, data = 10\<rparr>) (status_inicial, []))
     = \<lparr>novos = 0, iguais = 0, reenviados = 1, erros_download = 0, erros_upload = 1,
        erros_remocao = 0\<rparr>"
proof -
  note c1 = falhas_fatais_e_locais [OF refl refl refl refl refl refl refl refl refl refl refl refl,
      where cfg = cfg_a and env = "env_de (falha_conexao Destino)", THEN conjunct1]
  note c2 = falhas_fatais_e_locais [OF refl refl refl refl refl refl refl refl refl refl refl refl,
      where cfg = cfg_a and env = "env_de (falha_conexao Origem)",
      THEN conjunct2, THEN conjunct1]
  note c3 = falhas_fatais_e_locais [OF refl refl refl refl refl refl refl refl refl refl refl refl,
      where cfg = "cfg_a\<lparr>days_back := 800000\<rparr>" and env = "env_de tudo_ok",
      THEN conjunct2, THEN conjunct1]
  note c4 = falhas_fatais_e_locais [OF refl refl refl refl refl refl refl refl refl refl refl refl,
      where cfg = cfg_a and env = "env_de falha_remove" and dest = destino_a
      and c = "''/src/a.txt''" and dados = "\<lparr>tamanho = 10, data = 10\<rparr>"
      and st = status_inicial and tr = "[]",
      THEN conjunct2, THEN conjunct2, THEN conjunct2, THEN conjunct2, THEN conjunct2, THEN conjunct1]
  note c5 = falhas_fatais_e_locais [OF refl refl refl refl refl refl refl refl refl refl refl refl,
      where cfg = cfg_a and env = "env_de falha_get" and dest = destino_a
      and c = "''/src/a.txt''" and dados = "\<lparr>tamanho = 10, data = 10\<rparr>"
      and st = status_inicial and tr = "[]",
      THEN conjunct2, THEN conjunct2, THEN conjunct2, THEN conjunct2, THEN conjunct2, THEN conjunct2, THEN conjunct2, THEN conjunct2, THEN conjunct2, THEN conjunct2, THEN conjunct1]
  note c6 = falhas_fatais_e_locais [OF refl refl refl refl refl refl refl refl refl refl refl refl,
      where cfg = cfg_a and env = "env_de falha_put" and dest = destino_a
      and c = "''/src/a.txt''" and dados = "\<lparr>tamanho = 10, data = 10\<rparr>"
      and st = status_inicial and tr = "[]",
      THEN conjunct2, THEN conjunct2, THEN conjunct2, THEN conjunct2, THEN conjunct2, THEN conjunct2, THEN conjunct2, THEN conjunct1]
  from c1 c2 c3 c4 c5 c6 entradas_com_falha execucoes_com_falha hipoteses_com_falha
  show ?thesis by simp
qed

text \<open>C3 as stated fails for the listing: when no destination root can be listed the run
  completes and sends the source file as new, and when the source root cannot be listed
  the run completes with nothing to do.\<close>

theorem raiz_ilegivel_counterexample:
  "main1 cfg_a (ambiente_de tudo_ok None None None origem_a)
     = (Inr (status_inicial\<lparr>novos := 1\<rparr>),
        [Connect Destino, Connect Origem, LocalMkdirParent (TempPath ''a.txt''),
         Get ''/src/a.txt'' (TempPath ''a.txt''), Connect Destino, Exists ''/dst/uploads'',
         Put (TempPath ''a.txt'') ''/dst/uploads/a.txt'', Connect Destino,
         Exists ''/dst/logs'', Chdir ''/dst/logs'', Put LogPath ''run.log''])
   \<and> fst (main2 cfg_a (ambiente_de tudo_ok None None None origem_a))
     = Inr (status_inicial\<lparr>novos := 1\<rparr>)
   \<and> fst (main1 cfg_a (ambiente_de tudo_ok origem_a None origem_a None)) = Inr status_inicial
   \<and> fst (main2 cfg_a (ambiente_de tudo_ok origem_a None origem_a None)) = Inr status_inicial"
  by code_simp

section \<open>The merge of the two destination listings\<close>









end
